theory Spec2Isabelle
  imports Complex_Main "HOL-Library.Sublist" "HOL-Library.Multiset"
begin

section \<open>Trial tables\<close>

text \<open>
  The functions of \<^verbatim>\<open>first_level_workflows.py\<close>, \<^verbatim>\<open>generate_contrasts.py\<close> and
  \<^verbatim>\<open>generate_contrast_csv.py\<close> work on a pandas DataFrame of trials. A row of the table
  is modelled with its index label and the two columns the code reads; the other columns
  (\<^verbatim>\<open>duration\<close>, ...) are carried along untouched by the code and are left out. The onset
  is any linearly ordered value (a number that is not NaN), the trial type a string.
  The code addresses rows through \<^verbatim>\<open>.loc\<close>, that is by index label, and an assignment
  through \<^verbatim>\<open>.loc\<close> reaches every row that has the label. A table read from an events file
  has the labels \<open>0, 1, ...\<close>; pandas also accepts a table in which a label is repeated, and
  the code does not check the index.
\<close>

record 'a trial =
  idx :: nat
  trial_type :: string
  onset :: 'a

text \<open>The working copy \<^verbatim>\<open>df_work\<close> has the additional column \<^verbatim>\<open>conditions\<close>.\<close>

record 'a arow = "'a trial" +
  conditions :: string

text \<open>
  pandas does not require the column \<^verbatim>\<open>trial_type\<close> to hold strings: an empty field of an
  events file is read as NaN, a column of numbers is a column of numbers. A cell of that
  column is a string or some other value, and a raw row has such a cell.
\<close>

datatype cell = Str string | NotStr

record 'a raw_trial =
  raw_idx :: nat
  raw_trial_type :: cell
  raw_onset :: 'a

text \<open>
  What a caller may pass as \<^verbatim>\<open>df_trial_info\<close>: \<^verbatim>\<open>None\<close>, some object that is not a DataFrame,
  a DataFrame with its column names and its rows, whose column \<^verbatim>\<open>trial_type\<close> holds strings
  (\<open>DataFrame\<close>), or a DataFrame whose column \<^verbatim>\<open>trial_type\<close> may hold other values as well
  (\<open>ObjectFrame\<close>). When a required column is absent the corresponding field of the rows is
  never read: the function raises before.
\<close>

datatype 'a pyobj =
    PyNone
  | NotDataFrame
  | DataFrame "string list" "'a trial list"
  | ObjectFrame "string list" "'a raw_trial list"

text \<open>
  The exceptions: the three \<^verbatim>\<open>ValueError\<close>s of the validation, the one of the \<^verbatim>\<open>None\<close>
  check of \<^verbatim>\<open>generate_contrast_csv.py\<close>, the \<^verbatim>\<open>IndexError\<close> of \<^verbatim>\<open>.index[0]\<close> on an empty
  index, the \<^verbatim>\<open>ValueError\<close> of unpacking a list that has not two elements, and the
  \<^verbatim>\<open>AttributeError\<close> or \<^verbatim>\<open>TypeError\<close> that \<^verbatim>\<open>.str.startswith\<close> and \<^verbatim>\<open>~\<close> raise on a column that
  holds a value that is not a string.
\<close>

datatype error =
    WrongType
  | EmptyInput
  | MissingColumns "string list"
  | MissingInput
  | IndexError
  | UnpackError
  | NotAString

text \<open>The dictionaries \<^verbatim>\<open>{'first': ..., 'other': ...}\<close> returned for each family.\<close>

record family_summary =
  first :: "string option"
  other :: "string list"

text \<open>A contrast is the tuple \<^verbatim>\<open>(name, 'T', [conditions], [weights])\<close>.\<close>

type_synonym contrast = "string \<times> string \<times> string list \<times> int list"

section \<open>Library functions used by the code\<close>

text \<open>\<^verbatim>\<open>str.startswith\<close>.\<close>

definition startswith :: "string \<Rightarrow> string \<Rightarrow> bool" where
  "startswith s p = prefix p s"

text \<open>\<^verbatim>\<open>sep in s\<close> on strings.\<close>

fun contains :: "string \<Rightarrow> string \<Rightarrow> bool" where
  "contains sep [] = (sep = [])"
| "contains sep (c # cs) = (prefix sep (c # cs) \<or> contains sep cs)"

text \<open>
  \<^verbatim>\<open>s.split(sep)\<close> for a non-empty separator: the string is cut at the occurrences of \<open>sep\<close>
  found from left to right; \<open>skip\<close> counts the characters of a separator still to pass.
\<close>

fun split_aux :: "string \<Rightarrow> nat \<Rightarrow> string \<Rightarrow> string \<Rightarrow> string list" where
  "split_aux sep skip acc [] = [rev acc]"
| "split_aux sep skip acc (c # cs) =
     (if 0 < skip then split_aux sep (skip - 1) acc cs
      else if prefix sep (c # cs) then rev acc # split_aux sep (length sep - 1) [] cs
      else split_aux sep 0 (c # acc) cs)"

definition py_split :: "string \<Rightarrow> string \<Rightarrow> string list" where
  "py_split s sep = split_aux sep 0 [] s"

text \<open>\<^verbatim>\<open>s.strip()\<close>, on ASCII strings.\<close>

definition is_space :: "char \<Rightarrow> bool" where
  "is_space c \<longleftrightarrow>
     c \<in> {CHR '' '', CHR 0x09, CHR 0x0A, CHR 0x0B, CHR 0x0C, CHR 0x0D,
          CHR 0x1C, CHR 0x1D, CHR 0x1E, CHR 0x1F}"

definition strip :: "string \<Rightarrow> string" where
  "strip s = rev (dropWhile is_space (rev (dropWhile is_space s)))"

text \<open>\<^verbatim>\<open>Series.unique().tolist()\<close>: the distinct values in order of first appearance.\<close>

definition unique :: "'b list \<Rightarrow> 'b list" where
  "unique xs = rev (remdups (rev xs))"

text \<open>
  \<^verbatim>\<open>DataFrame.sort_values('onset')\<close> is called with pandas' default sorting kind, which is
  not a stable sort; so the sort is a parameter \<open>srt\<close> of the model, and all that is
  assumed about it is that it returns the rows it was given, ordered by ascending onset.
\<close>

definition sorts_by_onset :: "('a::linorder arow list \<Rightarrow> 'a arow list) \<Rightarrow> bool" where
  "sorts_by_onset srt \<longleftrightarrow>
     (\<forall>xs. mset (srt xs) = mset xs \<and> sorted (map onset (srt xs)))"

text \<open>
  \<^verbatim>\<open>df.loc[labels, 'conditions'] = v\<close>: every row whose index label is among \<open>labels\<close>
  gets the value \<open>v\<close> in the column \<^verbatim>\<open>conditions\<close>.
\<close>

definition set_loc :: "nat list \<Rightarrow> string \<Rightarrow> 'a arow list \<Rightarrow> 'a arow list" where
  "set_loc labels v df =
     map (\<lambda>r. if idx r \<in> set labels then r\<lparr>conditions := v\<rparr> else r) df"

text \<open>\<^verbatim>\<open>len(df[df['conditions'] == condition])\<close>.\<close>

definition trial_count :: "'a arow list \<Rightarrow> string \<Rightarrow> nat" where
  "trial_count df condition = length (filter (\<lambda>r. conditions r = condition) df)"

section \<open>extract_cs_conditions\<close>

text \<open>
  \<^verbatim>\<open>df_work['conditions'] = df_work['trial_type'].copy()\<close>, on one row of the copy of the
  input.
\<close>

definition init_row :: "'a trial \<Rightarrow> 'a arow" where
  "init_row r =
     \<lparr>idx = idx r, trial_type = trial_type r, onset = onset r, conditions = trial_type r\<rparr>"

text \<open>
  The three blocks "Update conditions column for ... trials" of the source are the same
  code up to the names: when the family has a trial, the index label of the first row of
  the family sorted by onset gets the label \<open>first_label\<close>, and the index labels of the
  rows of the family with another index label get \<open>others_label\<close>.
\<close>

definition update_family ::
  "('a arow list \<Rightarrow> 'a arow list) \<Rightarrow> 'a arow list \<Rightarrow> string \<Rightarrow> string \<Rightarrow>
   'a arow list \<Rightarrow> error + 'a arow list" where
  "update_family srt fam_trials first_label others_label df_work =
     (if fam_trials = [] then Inr df_work
      else
        case srt fam_trials of
          [] \<Rightarrow> Inl IndexError
        | r0 # _ \<Rightarrow>
            let first_idx = idx r0;
                df_work1 = set_loc [first_idx] first_label df_work;
                other_indices = map idx (filter (\<lambda>r. idx r \<noteq> first_idx) fam_trials)
            in Inr (set_loc other_indices others_label df_work1))"

text \<open>The three selections of rows by the prefix of \<^verbatim>\<open>trial_type\<close>.\<close>

definition is_cs :: "string \<Rightarrow> bool" where
  "is_cs t \<longleftrightarrow> startswith t ''CS-'' \<and> \<not> startswith t ''CSS'' \<and> \<not> startswith t ''CSR''"

definition is_css :: "string \<Rightarrow> bool" where
  "is_css t \<longleftrightarrow> startswith t ''CSS''"

definition is_csr :: "string \<Rightarrow> bool" where
  "is_csr t \<longleftrightarrow> startswith t ''CSR''"

definition summary :: "string list \<Rightarrow> string \<Rightarrow> string \<Rightarrow> family_summary" where
  "summary unique_conditions first_label others_label =
     \<lparr>first = (if first_label \<in> set unique_conditions then Some first_label else None),
      other = (if others_label \<in> set unique_conditions then [others_label] else [])\<rparr>"

text \<open>What is computed from the final \<^verbatim>\<open>df_work\<close>, from "Get unique conditions" on.\<close>

definition summarise ::
  "'a arow list \<Rightarrow>
   'a arow list \<times> family_summary \<times> family_summary \<times> family_summary \<times> string list" where
  "summarise df_work =
     (let unique_conditions = unique (map conditions df_work);
          cs_conditions = summary unique_conditions ''CS-_first'' ''CS-_others'';
          css_conditions = summary unique_conditions ''CSS_first'' ''CSS_others'';
          csr_conditions = summary unique_conditions ''CSR_first'' ''CSR_others'';
          other_conditions =
            unique (map trial_type
                      (filter (\<lambda>r. \<not> startswith (trial_type r) ''CS'') df_work))
      in (df_work, cs_conditions, css_conditions, csr_conditions, other_conditions))"

text \<open>The body of the function, after the validation.\<close>

definition extract_rows ::
  "('a arow list \<Rightarrow> 'a arow list) \<Rightarrow> 'a trial list \<Rightarrow>
   error + ('a arow list \<times> family_summary \<times> family_summary \<times> family_summary \<times> string list)"
  where
  "extract_rows srt rws =
     (let df_work = map init_row rws;
          cs_trials = filter (\<lambda>r. is_cs (trial_type r)) df_work;
          css_trials = filter (\<lambda>r. is_css (trial_type r)) df_work;
          csr_trials = filter (\<lambda>r. is_csr (trial_type r)) df_work
      in case update_family srt cs_trials ''CS-_first'' ''CS-_others'' df_work of
           Inl e \<Rightarrow> Inl e
         | Inr df_work \<Rightarrow>
      (case update_family srt css_trials ''CSS_first'' ''CSS_others'' df_work of
           Inl e \<Rightarrow> Inl e
         | Inr df_work \<Rightarrow>
      (case update_family srt csr_trials ''CSR_first'' ''CSR_others'' df_work of
           Inl e \<Rightarrow> Inl e
         | Inr df_work \<Rightarrow> Inr (summarise df_work))))"

text \<open>
  The validation: not a DataFrame; \<^verbatim>\<open>df.empty\<close> (no row, or no column); a required column
  missing. \<^verbatim>\<open>None\<close> is not a DataFrame either. The functions \<^verbatim>\<open>extract_cs_conditions\<close> of
  \<^verbatim>\<open>first_level_workflows.py\<close> and \<^verbatim>\<open>generate_contrast_csv.py\<close> and
  \<^verbatim>\<open>extract_cs_conditions_new\<close> of \<^verbatim>\<open>generate_contrasts.py\<close> are the same code, up to the
  logging calls. On a frame that passes the validation and whose column \<^verbatim>\<open>trial_type\<close> holds
  a value that is not a string, the selection of the CS- trials (lines 74 to 76) raises; when
  all its values are strings the frame is a frame of strings.
\<close>

definition is_str :: "'a raw_trial \<Rightarrow> bool" where
  "is_str r \<longleftrightarrow> (case raw_trial_type r of Str s \<Rightarrow> True | NotStr \<Rightarrow> False)"

definition typed_row :: "'a raw_trial \<Rightarrow> 'a trial" where
  "typed_row r =
     \<lparr>idx = raw_idx r,
      trial_type = (case raw_trial_type r of Str s \<Rightarrow> s | NotStr \<Rightarrow> []),
      onset = raw_onset r\<rparr>"

definition extract_cs_conditions ::
  "('a arow list \<Rightarrow> 'a arow list) \<Rightarrow> 'a pyobj \<Rightarrow>
   error + ('a arow list \<times> family_summary \<times> family_summary \<times> family_summary \<times> string list)"
  where
  "extract_cs_conditions srt df_trial_info =
     (case df_trial_info of
        DataFrame cols rws \<Rightarrow>
          if rws = [] \<or> cols = [] then Inl EmptyInput
          else
            let missing_columns = filter (\<lambda>col. col \<notin> set cols) [''trial_type'', ''onset'']
            in if missing_columns \<noteq> [] then Inl (MissingColumns missing_columns)
               else extract_rows srt rws
      | ObjectFrame cols raw \<Rightarrow>
          if raw = [] \<or> cols = [] then Inl EmptyInput
          else
            let missing_columns = filter (\<lambda>col. col \<notin> set cols) [''trial_type'', ''onset'']
            in if missing_columns \<noteq> [] then Inl (MissingColumns missing_columns)
               else if list_all is_str raw then extract_rows srt (map typed_row raw)
               else Inl NotAString
      | _ \<Rightarrow> Inl WrongType)"

section \<open>create_contrasts (generate_contrasts.py)\<close>

text \<open>The loop of the policy \<^verbatim>\<open>minimal\<close>.\<close>

definition minimal_contrasts :: "string list \<Rightarrow> contrast list" where
  "minimal_contrasts all_contrast_conditions =
     fold (\<lambda>condition contrasts.
             contrasts @ [(condition @ ''>baseline'', ''T'', [condition], [1])])
          all_contrast_conditions []"

text \<open>The double loop of the policy \<^verbatim>\<open>standard\<close>, over \<^verbatim>\<open>enumerate(all_contrast_conditions)\<close>.\<close>

definition standard_contrasts :: "string list \<Rightarrow> contrast list" where
  "standard_contrasts all_contrast_conditions =
     fold (\<lambda>(i, cond1) contrasts.
             fold (\<lambda>(j, cond2) contrasts.
                     if i < j
                     then contrasts @ [(cond1 @ ''>'' @ cond2, ''T'', [cond1, cond2], [1, -1])]
                                    @ [(cond1 @ ''<'' @ cond2, ''T'', [cond1, cond2], [-1, 1])]
                     else contrasts)
                  (enumerate 0 all_contrast_conditions) contrasts)
          (enumerate 0 all_contrast_conditions) []"

definition create_contrasts ::
  "('a arow list \<Rightarrow> 'a arow list) \<Rightarrow> 'a pyobj \<Rightarrow> string \<Rightarrow>
   error + (contrast list \<times> string list \<times> 'a arow list)" where
  "create_contrasts srt df_trial_info contrast_type =
     (case extract_cs_conditions srt df_trial_info of
        Inl e \<Rightarrow> Inl e
      | Inr (df_with_conditions, cs_conditions, css_conditions, csr_conditions,
             other_conditions) \<Rightarrow>
          let all_contrast_conditions = unique (map conditions df_with_conditions);
              contrasts =
                (if contrast_type = ''minimal'' then minimal_contrasts all_contrast_conditions
                 else if contrast_type = ''standard''
                 then standard_contrasts all_contrast_conditions
                 else [])
          in Inr (contrasts, all_contrast_conditions, df_with_conditions))"

section \<open>create_interesting_contrasts\<close>

text \<open>The fixed list of names and descriptions, the same in both files.\<close>

definition interesting_contrasts :: "(string \<times> string) list" where
  "interesting_contrasts =
     [(''CS-_others > FIXATION'', ''Other CS- trials vs baseline''),
      (''CSS_others > FIXATION'', ''Other CSS trials vs baseline''),
      (''CSR_others > FIXATION'', ''Other CSR trials vs baseline''),
      (''CSS_others > CSR_others'', ''Other CSS trials vs Other CSR trials''),
      (''CSR_others > CSS_others'', ''Other CSR trials vs Other CSS trials''),
      (''CSS_others > CS-_others'', ''Other CSS trials vs Other CS- trials''),
      (''CSR_others > CS-_others'', ''Other CSR trials vs Other CS- trials''),
      (''CS-_others > CSS_others'', ''Other CS- trials vs Other CSS trials''),
      (''CS-_others > CSR_others'', ''Other CS- trials vs Other CSR trials'')]"

text \<open>
  The dictionary \<^verbatim>\<open>conditions_with_trials\<close> of \<^verbatim>\<open>first_level_workflows.py\<close>, and
  \<^verbatim>\<open>conditions_with_trials.get(c, 0)\<close>.
\<close>

definition count_trials :: "'a arow list \<Rightarrow> string list \<Rightarrow> (string \<rightharpoonup> nat)" where
  "count_trials df all_conditions =
     fold (\<lambda>condition conditions_with_trials.
             conditions_with_trials(condition \<mapsto> trial_count df condition))
          all_conditions Map.empty"

definition get_count :: "(string \<rightharpoonup> nat) \<Rightarrow> string \<Rightarrow> nat" where
  "get_count conditions_with_trials c =
     (case conditions_with_trials c of None \<Rightarrow> 0 | Some n \<Rightarrow> n)"

text \<open>
  The loop over the fixed list. \<open>keep\<close> is the test "both conditions exist (and have
  trials)", which is the only difference between the two files.
\<close>

fun interesting_loop ::
  "(string \<Rightarrow> string \<Rightarrow> bool) \<Rightarrow> (string \<times> string) list \<Rightarrow> contrast list \<Rightarrow>
   error + contrast list" where
  "interesting_loop keep [] contrasts = Inr contrasts"
| "interesting_loop keep ((contrast_name, description) # rest) contrasts =
     (if contains '' > '' contrast_name
      then
        case py_split contrast_name '' > '' of
          [condition1, condition2] \<Rightarrow>
            let condition1 = strip condition1;
                condition2 = strip condition2
            in if keep condition1 condition2
               then interesting_loop keep rest
                      (contrasts @ [(contrast_name, ''T'', [condition1, condition2], [1, -1])])
               else interesting_loop keep rest contrasts
        | _ \<Rightarrow> Inl UnpackError
      else interesting_loop keep rest contrasts)"

text \<open>\<^verbatim>\<open>first_level_workflows.create_interesting_contrasts\<close>; the four last arguments are not used.\<close>

definition create_interesting_contrasts ::
  "'a arow list \<Rightarrow> family_summary \<Rightarrow> family_summary \<Rightarrow> family_summary \<Rightarrow> string list \<Rightarrow>
   error + contrast list" where
  "create_interesting_contrasts df_with_conditions cs_conditions css_conditions
       csr_conditions other_conditions =
     (let all_conditions = unique (map conditions df_with_conditions);
          conditions_with_trials = count_trials df_with_conditions all_conditions
      in interesting_loop
           (\<lambda>condition1 condition2.
              condition1 \<in> set all_conditions \<and> condition2 \<in> set all_conditions \<and>
              0 < get_count conditions_with_trials condition1 \<and>
              0 < get_count conditions_with_trials condition2)
           interesting_contrasts [])"

text \<open>\<^verbatim>\<open>generate_contrast_csv.create_interesting_contrasts\<close>.\<close>

definition create_interesting_contrasts_csv ::
  "('a arow list \<Rightarrow> 'a arow list) \<Rightarrow> 'a pyobj \<Rightarrow>
   error + (contrast list \<times> family_summary \<times> family_summary \<times> family_summary \<times> string list)"
  where
  "create_interesting_contrasts_csv srt df_trial_info =
     (if df_trial_info = PyNone then Inl MissingInput
      else
        case extract_cs_conditions srt df_trial_info of
          Inl e \<Rightarrow> Inl e
        | Inr (df_with_conditions, cs_conditions, css_conditions, csr_conditions,
               other_conditions) \<Rightarrow>
            let all_contrast_conditions = unique (map conditions df_with_conditions)
            in case interesting_loop
                      (\<lambda>condition1 condition2.
                         condition1 \<in> set all_contrast_conditions \<and>
                         condition2 \<in> set all_contrast_conditions)
                      interesting_contrasts [] of
                 Inl e \<Rightarrow> Inl e
               | Inr contrasts \<Rightarrow>
                   Inr (contrasts, cs_conditions, css_conditions, csr_conditions,
                        other_conditions))"

text \<open>\<^verbatim>\<open>first_level_workflows.create_standard_contrasts\<close>; the four last arguments are not used.\<close>

definition create_standard_contrasts ::
  "'a arow list \<Rightarrow> family_summary \<Rightarrow> family_summary \<Rightarrow> family_summary \<Rightarrow> string list \<Rightarrow>
   contrast list" where
  "create_standard_contrasts df_with_conditions cs_conditions css_conditions
       csr_conditions other_conditions =
     (let all_conditions = unique (map conditions df_with_conditions);
          conditions_with_trials = count_trials df_with_conditions all_conditions
      in fold (\<lambda>condition contrasts.
                 if 0 < get_count conditions_with_trials condition
                 then contrasts @ [(condition @ '' > FIXATION'', ''T'',
                                    [condition, ''FIXATION''], [1, -1])]
                 else contrasts)
              all_conditions [])"

section \<open>The table that extract_cs_conditions returns, row by row\<close>

text \<open>
  Auxiliary notions for the proofs: the index label that a family's block marks as first,
  and the label that a row of the input ends with when the index labels are unique.
\<close>

definition first_idx ::
  "('a arow list \<Rightarrow> 'a arow list) \<Rightarrow> (string \<Rightarrow> bool) \<Rightarrow> 'a trial list \<Rightarrow> nat" where
  "first_idx srt fam rws =
     idx (hd (srt (filter (\<lambda>r. fam (trial_type r)) (map init_row rws))))"

definition derived_label ::
  "('a arow list \<Rightarrow> 'a arow list) \<Rightarrow> 'a trial list \<Rightarrow> 'a trial \<Rightarrow> string" where
  "derived_label srt rws r =
     (if is_csr (trial_type r)
      then (if idx r = first_idx srt is_csr rws then ''CSR_first'' else ''CSR_others'')
      else if is_css (trial_type r)
      then (if idx r = first_idx srt is_css rws then ''CSS_first'' else ''CSS_others'')
      else if is_cs (trial_type r)
      then (if idx r = first_idx srt is_cs rws then ''CS-_first'' else ''CS-_others'')
      else trial_type r)"

definition labelled ::
  "('a arow list \<Rightarrow> 'a arow list) \<Rightarrow> 'a trial list \<Rightarrow> 'a arow list" where
  "labelled srt rws = map (\<lambda>r. (init_row r)\<lparr>conditions := derived_label srt rws r\<rparr>) rws"

section \<open>The partition of the rows\<close>



section \<open>Concrete trial tables\<close>

text \<open>
  The table of scenario A of the specification, with the index labels \<open>0, 1, ...\<close> that
  pandas gives to a table read from a file, and the table expected for it.
\<close>

definition scenario_A :: "real trial list" where
  "scenario_A =
     [\<lparr>idx = 0, trial_type = ''CS-'', onset = 5\<rparr>,
      \<lparr>idx = 1, trial_type = ''CSS'', onset = 10\<rparr>,
      \<lparr>idx = 2, trial_type = ''CSR'', onset = 8\<rparr>,
      \<lparr>idx = 3, trial_type = ''CS-'', onset = 15\<rparr>,
      \<lparr>idx = 4, trial_type = ''CSS'', onset = 20\<rparr>,
      \<lparr>idx = 5, trial_type = ''CSR'', onset = 18\<rparr>,
      \<lparr>idx = 6, trial_type = ''US'', onset = 30\<rparr>,
      \<lparr>idx = 7, trial_type = ''FIXATION'', onset = 0\<rparr>]"

definition scenario_A_labelled :: "real arow list" where
  "scenario_A_labelled =
     [\<lparr>idx = 0, trial_type = ''CS-'', onset = 5, conditions = ''CS-_first''\<rparr>,
      \<lparr>idx = 1, trial_type = ''CSS'', onset = 10, conditions = ''CSS_first''\<rparr>,
      \<lparr>idx = 2, trial_type = ''CSR'', onset = 8, conditions = ''CSR_first''\<rparr>,
      \<lparr>idx = 3, trial_type = ''CS-'', onset = 15, conditions = ''CS-_others''\<rparr>,
      \<lparr>idx = 4, trial_type = ''CSS'', onset = 20, conditions = ''CSS_others''\<rparr>,
      \<lparr>idx = 5, trial_type = ''CSR'', onset = 18, conditions = ''CSR_others''\<rparr>,
      \<lparr>idx = 6, trial_type = ''US'', onset = 30, conditions = ''US''\<rparr>,
      \<lparr>idx = 7, trial_type = ''FIXATION'', onset = 0, conditions = ''FIXATION''\<rparr>]"

text \<open>A table without CSR trials, and a table with a label \<open>CS+\<close> of no family.\<close>

definition scenario_D :: "real trial list" where
  "scenario_D =
     [\<lparr>idx = 0, trial_type = ''CS-'', onset = 5\<rparr>,
      \<lparr>idx = 1, trial_type = ''CSS'', onset = 10\<rparr>,
      \<lparr>idx = 2, trial_type = ''CS-'', onset = 15\<rparr>,
      \<lparr>idx = 3, trial_type = ''CSS'', onset = 20\<rparr>,
      \<lparr>idx = 4, trial_type = ''FIXATION'', onset = 0\<rparr>]"

definition scenario_D_labelled :: "real arow list" where
  "scenario_D_labelled =
     [\<lparr>idx = 0, trial_type = ''CS-'', onset = 5, conditions = ''CS-_first''\<rparr>,
      \<lparr>idx = 1, trial_type = ''CSS'', onset = 10, conditions = ''CSS_first''\<rparr>,
      \<lparr>idx = 2, trial_type = ''CS-'', onset = 15, conditions = ''CS-_others''\<rparr>,
      \<lparr>idx = 3, trial_type = ''CSS'', onset = 20, conditions = ''CSS_others''\<rparr>,
      \<lparr>idx = 4, trial_type = ''FIXATION'', onset = 0, conditions = ''FIXATION''\<rparr>]"

definition scenario_plus :: "real trial list" where
  "scenario_plus =
     [\<lparr>idx = 0, trial_type = ''CS+'', onset = 1\<rparr>,
      \<lparr>idx = 1, trial_type = ''US'', onset = 2\<rparr>,
      \<lparr>idx = 2, trial_type = ''CS-'', onset = 3\<rparr>]"

section \<open>The pairwise contrasts, as the specification describes them\<close>


section \<open>The curated contrasts, as the specification lists them\<close>

text \<open>
  The nine pairs of condition labels of the curated list, in its order; the T-contrast
  \<open>A > B\<close> with weights \<open>[1, -1]\<close> of a pair; and a label being present among the derived
  labels of a table with a trial count above zero.
\<close>

definition curated_pairs :: "(string \<times> string) list" where
  "curated_pairs =
     [(''CS-_others'', ''FIXATION''),
      (''CSS_others'', ''FIXATION''),
      (''CSR_others'', ''FIXATION''),
      (''CSS_others'', ''CSR_others''),
      (''CSR_others'', ''CSS_others''),
      (''CSS_others'', ''CS-_others''),
      (''CSR_others'', ''CS-_others''),
      (''CS-_others'', ''CSS_others''),
      (''CS-_others'', ''CSR_others'')]"

definition t_contrast :: "string \<times> string \<Rightarrow> contrast" where
  "t_contrast p = (fst p @ '' > '' @ snd p, ''T'', [fst p, snd p], [1, -1])"

definition present :: "'a arow list \<Rightarrow> string \<Rightarrow> bool" where
  "present df c \<longleftrightarrow> c \<in> set (unique (map conditions df)) \<and> 0 < trial_count df c"

section \<open>The returned table without assumption on the index labels\<close>

text \<open>
  Auxiliary notions for the proofs: the effect of the two \<^verbatim>\<open>.loc\<close> assignments of a family's
  block on one row, the effect of the block, and the row that the three blocks make of a
  row of the input.
\<close>

definition mark :: "nat \<Rightarrow> nat list \<Rightarrow> string \<Rightarrow> string \<Rightarrow> 'a arow \<Rightarrow> 'a arow" where
  "mark fi others fl ol r =
     (if idx r \<in> set others then r\<lparr>conditions := ol\<rparr>
      else if idx r = fi then r\<lparr>conditions := fl\<rparr> else r)"

definition family_step ::
  "('a arow list \<Rightarrow> 'a arow list) \<Rightarrow> 'a arow list \<Rightarrow> string \<Rightarrow> string \<Rightarrow> 'a arow \<Rightarrow> 'a arow"
  where
  "family_step srt fam_trials fl ol r =
     (if fam_trials = [] then r
      else mark (idx (hd (srt fam_trials)))
             (map idx (filter (\<lambda>r. idx r \<noteq> idx (hd (srt fam_trials))) fam_trials)) fl ol r)"

definition final_row :: "('a arow list \<Rightarrow> 'a arow list) \<Rightarrow> 'a trial list \<Rightarrow> 'a trial \<Rightarrow> 'a arow"
  where
  "final_row srt rws x =
     family_step srt (filter (\<lambda>r. is_csr (trial_type r)) (map init_row rws))
         ''CSR_first'' ''CSR_others''
       (family_step srt (filter (\<lambda>r. is_css (trial_type r)) (map init_row rws))
         ''CSS_first'' ''CSS_others''
       (family_step srt (filter (\<lambda>r. is_cs (trial_type r)) (map init_row rws))
         ''CS-_first'' ''CS-_others'' (init_row x)))"

section \<open>Tables with repeated index labels\<close>



definition dup_index_C :: "real trial list" where
  "dup_index_C =
     [\<lparr>idx = 0, trial_type = ''CS-'', onset = 1\<rparr>,
      \<lparr>idx = 1, trial_type = ''CSS'', onset = 2\<rparr>,
      \<lparr>idx = 1, trial_type = ''CS-'', onset = 3\<rparr>,
      \<lparr>idx = 0, trial_type = ''US'', onset = 4\<rparr>]"

definition dup_index_D :: "real trial list" where
  "dup_index_D =
     [\<lparr>idx = 0, trial_type = ''CS-'', onset = 5\<rparr>,
      \<lparr>idx = 0, trial_type = ''CS-'', onset = 15\<rparr>,
      \<lparr>idx = 1, trial_type = ''CSS'', onset = 10\<rparr>,
      \<lparr>idx = 1, trial_type = ''CSS'', onset = 20\<rparr>,
      \<lparr>idx = 2, trial_type = ''FIXATION'', onset = 0\<rparr>]"

section \<open>Validation of the input\<close>

text \<open>
  The column labels of a frame; the three ways an input fails the validation (\<^verbatim>\<open>df.empty\<close>
  holds of a frame without row or without column); a frame whose column \<^verbatim>\<open>trial_type\<close>
  holds strings only; a result that is one of the three \<^verbatim>\<open>ValueError\<close>s of the validation;
  and a frame with one empty field in the column \<^verbatim>\<open>trial_type\<close>. What pandas does past the
  validation with a frame in which a column label is repeated is outside the model.
\<close>

definition frame_columns :: "'a pyobj \<Rightarrow> string list" where
  "frame_columns inp =
     (case inp of DataFrame cols rws \<Rightarrow> cols | ObjectFrame cols raw \<Rightarrow> cols | _ \<Rightarrow> [])"

definition wrong_type :: "'a pyobj \<Rightarrow> bool" where
  "wrong_type inp \<longleftrightarrow>
     (case inp of DataFrame cols rws \<Rightarrow> False | ObjectFrame cols raw \<Rightarrow> False | _ \<Rightarrow> True)"


definition missing_columns :: "'a pyobj \<Rightarrow> bool" where
  "missing_columns inp \<longleftrightarrow>
     \<not> wrong_type inp \<and>
     (''trial_type'' \<notin> set (frame_columns inp) \<or> ''onset'' \<notin> set (frame_columns inp))"




section \<open>Auxiliary lemmas\<close>

subsection \<open>Sorting, prefixes, unique\<close>

lemma srt_nonempty:
  assumes "sorts_by_onset srt" "xs \<noteq> []"
  shows "srt xs \<noteq> []"
proof -
  from assms(1) have "mset (srt xs) = mset xs" by (simp add: sorts_by_onset_def)
  with assms(2) show ?thesis by auto
qed

lemma srt_hd_mem:
  assumes "sorts_by_onset srt" "xs \<noteq> []"
  shows "hd (srt xs) \<in> set xs"
proof -
  from assms(1) have "mset (srt xs) = mset xs" by (simp add: sorts_by_onset_def)
  then have "set (srt xs) = set xs" by (rule mset_eq_setD)
  with srt_nonempty[OF assms] show ?thesis using hd_in_set by blast
qed

lemma srt_hd_least:
  assumes "sorts_by_onset srt" "y \<in> set xs"
  shows "onset (hd (srt xs)) \<le> onset y"
proof -
  from assms(1) have m: "mset (srt xs) = mset xs" and s: "sorted (map onset (srt xs))"
    by (simp_all add: sorts_by_onset_def)
  from m have "set (srt xs) = set xs" by (rule mset_eq_setD)
  with assms(2) have y: "y \<in> set (srt xs)" by simp
  then obtain z zs where "srt xs = z # zs" by (cases "srt xs") auto
  with s y show ?thesis by auto
qed


lemma set_unique: "set (unique xs) = set xs"
  by (simp add: unique_def)

lemma distinct_unique: "distinct (unique xs)"
  by (simp add: unique_def)

subsection \<open>The result of extract_cs_conditions on a table with unique index labels\<close>

lemma update_family_map:
  assumes srt: "sorts_by_onset srt" and d: "distinct (map idx rws)"
  shows "update_family srt (filter (\<lambda>r. fam (trial_type r)) (map init_row rws)) fl ol
           (map (\<lambda>r. (init_row r)\<lparr>conditions := lab r\<rparr>) rws)
         = Inr (map (\<lambda>r. (init_row r)\<lparr>conditions :=
               (if fam (trial_type r) then (if idx r = first_idx srt fam rws then fl else ol)
                else lab r)\<rparr>) rws)"
proof (cases "filter (\<lambda>r. fam (trial_type r)) (map init_row rws) = []")
  case True
  then have "\<forall>r\<in>set rws. \<not> fam (trial_type r)"
    by (auto simp: filter_empty_conv init_row_def)
  with True show ?thesis by (simp add: update_family_def)
next
  case False
  define fam_trials where "fam_trials = filter (\<lambda>r. fam (trial_type r)) (map init_row rws)"
  define fi where "fi = first_idx srt fam rws"
  define others where "others = map idx (filter (\<lambda>r. idx r \<noteq> fi) fam_trials)"
  have fi: "fi = idx (hd (srt fam_trials))"
    by (simp add: fi_def first_idx_def fam_trials_def)
  have ne: "fam_trials \<noteq> []" using False by (simp add: fam_trials_def)
  from srt_nonempty[OF srt ne] obtain r0 rest where s: "srt fam_trials = r0 # rest"
    by (cases "srt fam_trials") auto
  have eq: "update_family srt fam_trials fl ol df = Inr (set_loc others ol (set_loc [fi] fl df))"
    for df
    using ne s by (simp add: update_family_def Let_def fi others_def)
  from srt_hd_mem[OF srt ne] obtain r1
    where r1: "r1 \<in> set rws" "fam (trial_type r1)" "idx r1 = fi"
    by (auto simp: fi fam_trials_def init_row_def)
  have inj: "inj_on idx (set rws)" using d by (simp add: distinct_map)
  have key: "idx r \<in> set others \<longleftrightarrow> fam (trial_type r) \<and> idx r \<noteq> fi"
    if r: "r \<in> set rws" for r
  proof
    assume "idx r \<in> set others"
    then obtain r' where "r' \<in> set rws" "fam (trial_type r')" "idx r' \<noteq> fi" "idx r = idx r'"
      by (auto simp: others_def fam_trials_def init_row_def)
    moreover with inj r have "r = r'" by (auto dest: inj_onD)
    ultimately show "fam (trial_type r) \<and> idx r \<noteq> fi" by simp
  next
    assume "fam (trial_type r) \<and> idx r \<noteq> fi"
    with r have "init_row r \<in> set (filter (\<lambda>r. idx r \<noteq> fi) fam_trials)"
      by (auto simp: fam_trials_def init_row_def)
    then have "idx (init_row r) \<in> set others"
      unfolding others_def set_map by (rule imageI)
    then show "idx r \<in> set others"
      by (simp add: init_row_def)
  qed
  have in_fam: "fam (trial_type r)" if "r \<in> set rws" "idx r = fi" for r
    using r1 inj that by (metis inj_onD)
  have "set_loc others ol (set_loc [fi] fl (map (\<lambda>r. (init_row r)\<lparr>conditions := lab r\<rparr>) rws))
        = map (\<lambda>r. (init_row r)\<lparr>conditions :=
               (if fam (trial_type r) then (if idx r = fi then fl else ol) else lab r)\<rparr>) rws"
    unfolding set_loc_def map_map comp_def
  proof (rule map_cong[OF refl])
    fix r assume r: "r \<in> set rws"
    have i: "idx (init_row r) = idx r" by (simp add: init_row_def)
    show "(if idx (if idx (init_row r\<lparr>conditions := lab r\<rparr>) \<in> set [fi]
            then init_row r\<lparr>conditions := lab r, conditions := fl\<rparr>
            else init_row r\<lparr>conditions := lab r\<rparr>) \<in> set others
          then (if idx (init_row r\<lparr>conditions := lab r\<rparr>) \<in> set [fi]
            then init_row r\<lparr>conditions := lab r, conditions := fl\<rparr>
            else init_row r\<lparr>conditions := lab r\<rparr>)\<lparr>conditions := ol\<rparr>
          else (if idx (init_row r\<lparr>conditions := lab r\<rparr>) \<in> set [fi]
            then init_row r\<lparr>conditions := lab r, conditions := fl\<rparr>
            else init_row r\<lparr>conditions := lab r\<rparr>))
        = init_row r\<lparr>conditions :=
            if fam (trial_type r) then if idx r = fi then fl else ol else lab r\<rparr>"
      using key[OF r] in_fam[OF r] by (cases "idx r = fi") (auto simp: i)
  qed
  then have "update_family srt fam_trials fl ol
               (map (\<lambda>r. (init_row r)\<lparr>conditions := lab r\<rparr>) rws)
        = Inr (map (\<lambda>r. (init_row r)\<lparr>conditions :=
               (if fam (trial_type r) then (if idx r = fi then fl else ol) else lab r)\<rparr>) rws)"
    by (simp only: eq)
  then show ?thesis
    unfolding fam_trials_def fi_def .
qed

lemma init_row_self: "map init_row rws = map (\<lambda>r. (init_row r)\<lparr>conditions := trial_type r\<rparr>) rws"
  by (simp add: init_row_def)

lemma extract_rows_labelled:
  assumes srt: "sorts_by_onset srt" and d: "distinct (map idx rws)"
  shows "extract_rows srt rws = Inr (summarise (labelled srt rws))"
proof -
  define l1 where "l1 = (\<lambda>r::'a trial. if is_cs (trial_type r)
      then (if idx r = first_idx srt is_cs rws then ''CS-_first'' else ''CS-_others'')
      else trial_type r)"
  define l2 where "l2 = (\<lambda>r. if is_css (trial_type r)
      then (if idx r = first_idx srt is_css rws then ''CSS_first'' else ''CSS_others'')
      else l1 r)"
  define l3 where "l3 = (\<lambda>r. if is_csr (trial_type r)
      then (if idx r = first_idx srt is_csr rws then ''CSR_first'' else ''CSR_others'')
      else l2 r)"
  have s1: "update_family srt (filter (\<lambda>r. is_cs (trial_type r)) (map init_row rws))
              ''CS-_first'' ''CS-_others'' (map init_row rws)
            = Inr (map (\<lambda>r. (init_row r)\<lparr>conditions := l1 r\<rparr>) rws)"
    using update_family_map[OF srt d, of is_cs "''CS-_first''" "''CS-_others''" trial_type]
    by (simp add: l1_def init_row_self[symmetric])
  have s2: "update_family srt (filter (\<lambda>r. is_css (trial_type r)) (map init_row rws))
              ''CSS_first'' ''CSS_others'' (map (\<lambda>r. (init_row r)\<lparr>conditions := l1 r\<rparr>) rws)
            = Inr (map (\<lambda>r. (init_row r)\<lparr>conditions := l2 r\<rparr>) rws)"
    using update_family_map[OF srt d, of is_css "''CSS_first''" "''CSS_others''" l1]
    by (simp add: l2_def)
  have s3: "update_family srt (filter (\<lambda>r. is_csr (trial_type r)) (map init_row rws))
              ''CSR_first'' ''CSR_others'' (map (\<lambda>r. (init_row r)\<lparr>conditions := l2 r\<rparr>) rws)
            = Inr (map (\<lambda>r. (init_row r)\<lparr>conditions := l3 r\<rparr>) rws)"
    using update_family_map[OF srt d, of is_csr "''CSR_first''" "''CSR_others''" l2]
    by (simp add: l3_def)
  have l: "labelled srt rws = map (\<lambda>r. (init_row r)\<lparr>conditions := l3 r\<rparr>) rws"
    by (simp add: labelled_def derived_label_def l3_def l2_def l1_def)
  show ?thesis
    unfolding extract_rows_def Let_def l
    by (simp only: s1 s2 s3 sum.case)
qed

subsection \<open>The function returns on every valid input\<close>

lemma sort_key_sorts: "sorts_by_onset (sort_key onset)"
  by (simp add: sorts_by_onset_def)

lemma update_family_returns:
  assumes "sorts_by_onset srt"
  shows "\<exists>df'. update_family srt fam_trials fl ol df = Inr df'"
proof (cases "fam_trials = []")
  case True
  then show ?thesis by (simp add: update_family_def)
next
  case False
  from srt_nonempty[OF assms False] obtain r0 rest where "srt fam_trials = r0 # rest"
    by (cases "srt fam_trials") auto
  with False show ?thesis by (simp add: update_family_def Let_def)
qed

lemma extract_rows_returns:
  assumes "sorts_by_onset srt"
  shows "\<exists>res. extract_rows srt rws = Inr res"
proof -
  let ?df0 = "map init_row rws"
  from update_family_returns[OF assms] obtain df1 where
    1: "update_family srt (filter (\<lambda>r. is_cs (trial_type r)) ?df0) ''CS-_first'' ''CS-_others'' ?df0 = Inr df1"
    by blast
  from update_family_returns[OF assms] obtain df2 where
    2: "update_family srt (filter (\<lambda>r. is_css (trial_type r)) ?df0) ''CSS_first'' ''CSS_others'' df1 = Inr df2"
    by blast
  from update_family_returns[OF assms] obtain df3 where
    3: "update_family srt (filter (\<lambda>r. is_csr (trial_type r)) ?df0) ''CSR_first'' ''CSR_others'' df2 = Inr df3"
    by blast
  show ?thesis
    unfolding extract_rows_def Let_def by (simp only: 1 2 3 sum.case) blast
qed

lemma extract_valid_input:
  assumes "rws \<noteq> []" "''trial_type'' \<in> set cols" "''onset'' \<in> set cols"
  shows "extract_cs_conditions srt (DataFrame cols rws) = extract_rows srt rws"
  using assms by (auto simp: extract_cs_conditions_def)

lemma extract_Inr_valid:
  assumes "extract_cs_conditions srt (DataFrame cols rws) = Inr res"
  shows "rws \<noteq> [] \<and> ''trial_type'' \<in> set cols \<and> ''onset'' \<in> set cols"
  using assms by (auto simp: extract_cs_conditions_def Let_def split: if_splits)

lemma extract_labelled:
  assumes "sorts_by_onset srt" "distinct (map idx rws)"
    and "extract_cs_conditions srt (DataFrame cols rws) = Inr (df, cs, css, csr, oth)"
  shows "df = labelled srt rws"
    and "cs = summary (unique (map conditions df)) ''CS-_first'' ''CS-_others''"
    and "css = summary (unique (map conditions df)) ''CSS_first'' ''CSS_others''"
    and "csr = summary (unique (map conditions df)) ''CSR_first'' ''CSR_others''"
    and "oth = unique (map trial_type (filter (\<lambda>r. \<not> startswith (trial_type r) ''CS'') df))"
proof -
  from extract_Inr_valid[OF assms(3)] have "extract_cs_conditions srt (DataFrame cols rws) = extract_rows srt rws"
    by (simp add: extract_valid_input)
  with assms(3) extract_rows_labelled[OF assms(1,2)]
  have "summarise (labelled srt rws) = (df, cs, css, csr, oth)" by simp
  then show "df = labelled srt rws"
    and "cs = summary (unique (map conditions df)) ''CS-_first'' ''CS-_others''"
    and "css = summary (unique (map conditions df)) ''CSS_first'' ''CSS_others''"
    and "csr = summary (unique (map conditions df)) ''CSR_first'' ''CSR_others''"
    and "oth = unique (map trial_type (filter (\<lambda>r. \<not> startswith (trial_type r) ''CS'') df))"
    by (auto simp: summarise_def Let_def)
qed

subsection \<open>The derived label of a row\<close>

lemma css_not_csr: "prefix ''CSS'' t \<Longrightarrow> prefix ''CSR'' t \<Longrightarrow> False"
  by (auto simp: prefix_def)

text \<open>
  A string that starts with \<open>CS-\<close> starts with neither \<open>CSS\<close> nor \<open>CSR\<close>: the two
  exclusions in the selection of the CS- trials never remove a row.
\<close>

lemma cs_prefix_excludes:
  "startswith t ''CS-'' \<Longrightarrow> \<not> startswith t ''CSS'' \<and> \<not> startswith t ''CSR''"
  by (auto simp: startswith_def prefix_def)

lemma derived_label_cases:
  "derived_label srt rws x = ''CS-_first'' \<longleftrightarrow>
     is_cs (trial_type x) \<and> idx x = first_idx srt is_cs rws"
  "derived_label srt rws x = ''CS-_others'' \<longleftrightarrow>
     is_cs (trial_type x) \<and> idx x \<noteq> first_idx srt is_cs rws"
  "derived_label srt rws x = ''CSS_first'' \<longleftrightarrow>
     is_css (trial_type x) \<and> idx x = first_idx srt is_css rws"
  "derived_label srt rws x = ''CSS_others'' \<longleftrightarrow>
     is_css (trial_type x) \<and> idx x \<noteq> first_idx srt is_css rws"
  "derived_label srt rws x = ''CSR_first'' \<longleftrightarrow>
     is_csr (trial_type x) \<and> idx x = first_idx srt is_csr rws"
  "derived_label srt rws x = ''CSR_others'' \<longleftrightarrow>
     is_csr (trial_type x) \<and> idx x \<noteq> first_idx srt is_csr rws"
  by (auto simp: derived_label_def is_cs_def is_css_def is_csr_def startswith_def
      dest: css_not_csr)

lemma derived_label_passthrough:
  "\<not> is_cs (trial_type x) \<Longrightarrow> \<not> is_css (trial_type x) \<Longrightarrow> \<not> is_csr (trial_type x) \<Longrightarrow>
   derived_label srt rws x = trial_type x"
  by (simp add: derived_label_def)

lemma labelled_row:
  "r \<in> set (labelled srt rws) \<longleftrightarrow>
   (\<exists>x\<in>set rws. r = (init_row x)\<lparr>conditions := derived_label srt rws x\<rparr>)"
  by (auto simp: labelled_def)

lemma labelled_fields:
  "map idx (labelled srt rws) = map idx rws"
  "map trial_type (labelled srt rws) = map trial_type rws"
  "map onset (labelled srt rws) = map onset rws"
  "map conditions (labelled srt rws) = map (derived_label srt rws) rws"
  by (simp_all add: labelled_def init_row_def)

lemma first_idx_row:
  assumes srt: "sorts_by_onset srt" and x: "x \<in> set rws" "fam (trial_type x)"
  shows "\<exists>x0\<in>set rws. fam (trial_type x0) \<and> idx x0 = first_idx srt fam rws \<and>
           (\<forall>y\<in>set rws. fam (trial_type y) \<longrightarrow> onset x0 \<le> onset y)"
proof -
  define fam_trials where "fam_trials = filter (\<lambda>r. fam (trial_type r)) (map init_row rws)"
  from x have "init_row x \<in> set fam_trials" by (simp add: fam_trials_def init_row_def)
  then have ne: "fam_trials \<noteq> []" by auto
  from srt_hd_mem[OF srt ne] obtain x0 where
    x0: "x0 \<in> set rws" "fam (trial_type x0)" "hd (srt fam_trials) = init_row x0"
    by (auto simp: fam_trials_def init_row_def)
  have "onset x0 \<le> onset y" if "y \<in> set rws" "fam (trial_type y)" for y
  proof -
    from that have "init_row y \<in> set fam_trials" by (simp add: fam_trials_def init_row_def)
    from srt_hd_least[OF srt this] x0(3) show ?thesis by (simp add: init_row_def)
  qed
  moreover have "idx x0 = first_idx srt fam rws"
    using x0(3) by (simp add: first_idx_def fam_trials_def[symmetric] init_row_def)
  ultimately show ?thesis using x0(1,2) by blast
qed


lemma family_labels:
  assumes srt: "sorts_by_onset srt" and d: "distinct (map idx rws)"
    and fam: "(fam, fl, ol) \<in> {(is_cs, ''CS-_first'', ''CS-_others''),
                (is_css, ''CSS_first'', ''CSS_others''), (is_csr, ''CSR_first'', ''CSR_others'')}"
  shows "derived_label srt rws x = fl \<longleftrightarrow> fam (trial_type x) \<and> idx x = first_idx srt fam rws"
    and "derived_label srt rws x = ol \<longleftrightarrow> fam (trial_type x) \<and> idx x \<noteq> first_idx srt fam rws"
  using fam derived_label_cases[of srt rws x] by auto


lemma two_distinct_idx:
  assumes "distinct (map idx xs)" "2 \<le> length xs"
  shows "\<exists>x\<in>set xs. idx x \<noteq> k"
proof -
  from assms(2) obtain a b rest where "xs = a # b # rest"
    by (cases xs; cases "tl xs") auto
  with assms(1) show ?thesis by (cases "idx a = k") auto
qed

lemma others_label_present:
  assumes srt: "sorts_by_onset srt" and d: "distinct (map idx rws)"
    and fam: "(fam, fl, ol) \<in> {(is_cs, ''CS-_first'', ''CS-_others''),
                (is_css, ''CSS_first'', ''CSS_others''), (is_csr, ''CSR_first'', ''CSR_others'')}"
  shows "ol \<in> set (map conditions (labelled srt rws)) \<longleftrightarrow>
         2 \<le> length (filter (\<lambda>r. fam (trial_type r)) rws)"
proof
  assume "ol \<in> set (map conditions (labelled srt rws))"
  then obtain x where x: "x \<in> set rws" "derived_label srt rws x = ol"
    by (auto simp: labelled_fields)
  with family_labels(2)[OF srt d fam, of x]
  have fx: "fam (trial_type x)" "idx x \<noteq> first_idx srt fam rws" by simp_all
  from first_idx_row[where fam=fam, OF srt x(1) fx(1)] obtain x0 where
    x0: "x0 \<in> set rws" "fam (trial_type x0)" "idx x0 = first_idx srt fam rws" by blast
  with fx have ne: "x0 \<noteq> x" by auto
  let ?f = "filter (\<lambda>r. fam (trial_type r)) rws"
  from d have dr: "distinct rws" by (simp add: distinct_map)
  then have "distinct ?f" by simp
  then have "card (set ?f) = length ?f" by (rule distinct_card)
  moreover have "{x0, x} \<subseteq> set ?f" using x x0 fx by simp
  then have "card {x0, x} \<le> card (set ?f)" by (intro card_mono) simp_all
  ultimately show "2 \<le> length ?f" using ne by simp
next
  let ?f = "filter (\<lambda>r. fam (trial_type r)) rws"
  assume "2 \<le> length ?f"
  moreover have "distinct (map idx ?f)" using d by (rule distinct_map_filter)
  ultimately obtain x where "x \<in> set ?f" "idx x \<noteq> first_idx srt fam rws"
    using two_distinct_idx by blast
  with family_labels(2)[OF srt d fam, of x]
  have "x \<in> set rws" "derived_label srt rws x = ol" by simp_all
  then show "ol \<in> set (map conditions (labelled srt rws))"
    unfolding labelled_fields set_map by (metis imageI)
qed


subsection \<open>Evaluation on the concrete tables\<close>

lemma update_family_hd:
  assumes "sorts_by_onset srt" "fam_trials \<noteq> []"
  shows "update_family srt fam_trials fl ol df =
         Inr (set_loc (map idx (filter (\<lambda>r. idx r \<noteq> idx (hd (srt fam_trials))) fam_trials)) ol
                (set_loc [idx (hd (srt fam_trials))] fl df))"
proof -
  from srt_nonempty[OF assms] obtain r0 rest where "srt fam_trials = r0 # rest"
    by (cases "srt fam_trials") auto
  with assms(2) show ?thesis by (simp add: update_family_def Let_def)
qed

lemma srt_hd_pair:
  assumes "sorts_by_onset srt" "onset a < onset b"
  shows "hd (srt [a, b]) = a"
proof -
  from srt_hd_mem[OF assms(1), of "[a, b]"] have "hd (srt [a, b]) = a \<or> hd (srt [a, b]) = b"
    by simp
  moreover from srt_hd_least[OF assms(1), of a "[a, b]"] have "onset (hd (srt [a, b])) \<le> onset a"
    by simp
  ultimately show ?thesis using assms(2) by auto
qed

lemma scenario_A_stable:
  "extract_cs_conditions (sort_key onset) (DataFrame [''trial_type'', ''onset''] scenario_A) =
         Inr (scenario_A_labelled,
              \<lparr>first = Some ''CS-_first'', other = [''CS-_others'']\<rparr>,
              \<lparr>first = Some ''CSS_first'', other = [''CSS_others'']\<rparr>,
              \<lparr>first = Some ''CSR_first'', other = [''CSR_others'']\<rparr>,
              [''US'', ''FIXATION''])"
  by (simp add: extract_cs_conditions_def extract_rows_def scenario_A_def scenario_A_labelled_def
      init_row_def is_cs_def is_css_def is_csr_def startswith_def
      update_family_def set_loc_def
      summarise_def summary_def unique_def)

lemma scenario_A_distinct: "distinct (map idx scenario_A)"
  by (simp add: scenario_A_def)


lemma scenario_D_distinct: "distinct (map idx scenario_D)"
  by (simp add: scenario_D_def)

lemma scenario_D_stable:
  "extract_cs_conditions (sort_key onset) (DataFrame [''trial_type'', ''onset''] scenario_D) =
         Inr (scenario_D_labelled,
              \<lparr>first = Some ''CS-_first'', other = [''CS-_others'']\<rparr>,
              \<lparr>first = Some ''CSS_first'', other = [''CSS_others'']\<rparr>,
              \<lparr>first = None, other = []\<rparr>,
              [''FIXATION''])"
  by (simp add: extract_cs_conditions_def extract_rows_def scenario_D_def scenario_D_labelled_def
      init_row_def is_cs_def is_css_def is_csr_def startswith_def
      update_family_def set_loc_def
      summarise_def summary_def unique_def)

lemma not_cs_prefix_no_family:
  "\<not> startswith t ''CS'' \<Longrightarrow> \<not> is_cs t \<and> \<not> is_css t \<and> \<not> is_csr t"
  by (auto simp: is_cs_def is_css_def is_csr_def startswith_def prefix_def)

subsection \<open>The loops of create_contrasts\<close>

lemma fold_append_concat:
  "fold (\<lambda>x acc. acc @ f x) xs acc0 = acc0 @ concat (map f xs)"
proof (induction xs arbitrary: acc0)
  case Nil
  show ?case by simp
next
  case (Cons a xs)
  have "fold (\<lambda>x acc. acc @ f x) (a # xs) acc0 = fold (\<lambda>x acc. acc @ f x) xs (acc0 @ f a)"
    by simp
  also have "\<dots> = (acc0 @ f a) @ concat (map f xs)"
    by (rule Cons.IH)
  also have "\<dots> = acc0 @ concat (map f (a # xs))"
    by (simp only: list.map concat.simps append_assoc)
  finally show ?case .
qed







lemma create_contrasts_valid:
  assumes "sorts_by_onset srt" and "rws \<noteq> []"
    and "''trial_type'' \<in> set cols" and "''onset'' \<in> set cols"
  obtains df cs css csr oth where
    "extract_cs_conditions srt (DataFrame cols rws) = Inr (df, cs, css, csr, oth)"
    "create_contrasts srt (DataFrame cols rws) contrast_type =
       Inr (if contrast_type = ''minimal'' then minimal_contrasts (unique (map conditions df))
            else if contrast_type = ''standard'' then standard_contrasts (unique (map conditions df))
            else [],
            unique (map conditions df), df)"
proof -
  from extract_rows_returns[OF assms(1), of rws] extract_valid_input[OF assms(2-4), of srt]
  obtain res where "extract_cs_conditions srt (DataFrame cols rws) = Inr res" by auto
  then obtain df cs css csr oth where
    e: "extract_cs_conditions srt (DataFrame cols rws) = Inr (df, cs, css, csr, oth)"
    by (cases res) auto
  then have "create_contrasts srt (DataFrame cols rws) contrast_type =
       Inr (if contrast_type = ''minimal'' then minimal_contrasts (unique (map conditions df))
            else if contrast_type = ''standard'' then standard_contrasts (unique (map conditions df))
            else [],
            unique (map conditions df), df)"
    by (simp add: create_contrasts_def Let_def)
  with e show ?thesis by (rule that)
qed

lemma scenario_D_nonempty: "scenario_D \<noteq> []"
  by (simp add: scenario_D_def)

subsection \<open>The loop of create_interesting_contrasts\<close>

lemma interesting_loop_step:
  assumes "contains '' > '' name" and "py_split name '' > '' = [a, b]"
    and "strip a = c1" and "strip b = c2"
  shows "interesting_loop keep ((name, desc) # rest) acc =
         interesting_loop keep rest
           (acc @ (if keep c1 c2 then [(name, ''T'', [c1, c2], [1, -1])] else []))"
  using assms by (simp add: Let_def)

lemma strip_label [simp]:
  "strip ''CS-_others'' = ''CS-_others''" "strip ''CSS_others'' = ''CSS_others''"
  "strip ''CSR_others'' = ''CSR_others''" "strip ''FIXATION'' = ''FIXATION''"
  by (simp_all add: strip_def is_space_def)

lemma parse_names:
  "contains '' > '' ''CS-_others > FIXATION''"
  "py_split ''CS-_others > FIXATION'' '' > '' = [''CS-_others'', ''FIXATION'']"
  "contains '' > '' ''CSS_others > FIXATION''"
  "py_split ''CSS_others > FIXATION'' '' > '' = [''CSS_others'', ''FIXATION'']"
  "contains '' > '' ''CSR_others > FIXATION''"
  "py_split ''CSR_others > FIXATION'' '' > '' = [''CSR_others'', ''FIXATION'']"
  "contains '' > '' ''CSS_others > CSR_others''"
  "py_split ''CSS_others > CSR_others'' '' > '' = [''CSS_others'', ''CSR_others'']"
  "contains '' > '' ''CSR_others > CSS_others''"
  "py_split ''CSR_others > CSS_others'' '' > '' = [''CSR_others'', ''CSS_others'']"
  "contains '' > '' ''CSS_others > CS-_others''"
  "py_split ''CSS_others > CS-_others'' '' > '' = [''CSS_others'', ''CS-_others'']"
  "contains '' > '' ''CSR_others > CS-_others''"
  "py_split ''CSR_others > CS-_others'' '' > '' = [''CSR_others'', ''CS-_others'']"
  "contains '' > '' ''CS-_others > CSS_others''"
  "py_split ''CS-_others > CSS_others'' '' > '' = [''CS-_others'', ''CSS_others'']"
  "contains '' > '' ''CS-_others > CSR_others''"
  "py_split ''CS-_others > CSR_others'' '' > '' = [''CS-_others'', ''CSR_others'']"
  by (simp_all add: py_split_def)

lemma filter_Cons_append: "filter P (x # xs) = (if P x then [x] else []) @ filter P xs"
  by simp

lemma map_if_single: "map f (if c then [x] else []) = (if c then [f x] else [])"
  by simp

lemma interesting_loop_curated:
  "interesting_loop keep interesting_contrasts [] =
   Inr (map t_contrast (filter (\<lambda>(c1, c2). keep c1 c2) curated_pairs))"
  unfolding interesting_contrasts_def curated_pairs_def
  apply (simp only: interesting_loop_step[OF parse_names(1,2) strip_label(1,4)]
      interesting_loop_step[OF parse_names(3,4) strip_label(2,4)]
      interesting_loop_step[OF parse_names(5,6) strip_label(3,4)]
      interesting_loop_step[OF parse_names(7,8) strip_label(2,3)]
      interesting_loop_step[OF parse_names(9,10) strip_label(3,2)]
      interesting_loop_step[OF parse_names(11,12) strip_label(2,1)]
      interesting_loop_step[OF parse_names(13,14) strip_label(3,1)]
      interesting_loop_step[OF parse_names(15,16) strip_label(1,2)]
      interesting_loop_step[OF parse_names(17,18) strip_label(1,3)]
      interesting_loop.simps(1))
  apply (simp only: filter_Cons_append filter.simps(1) map_append map_if_single list.map
      prod.case t_contrast_def fst_conv snd_conv append_Nil append_Nil2 append_assoc
      append.simps)
  done

lemma fold_upd_lookup:
  "fold (\<lambda>c m. m(c \<mapsto> g c)) xs m0 k = (if k \<in> set xs then Some (g k) else m0 k)"
  by (induction xs arbitrary: m0) auto

lemma get_count_trials:
  "get_count (count_trials df all_conditions) c =
     (if c \<in> set all_conditions then trial_count df c else 0)"
  by (simp add: get_count_def count_trials_def fold_upd_lookup)

lemma trial_count_pos: "0 < trial_count df c \<longleftrightarrow> c \<in> set (map conditions df)"
  by (auto simp: trial_count_def filter_empty_conv)

lemma present_iff: "present df c \<longleftrightarrow> c \<in> set (map conditions df)"
  by (auto simp: present_def set_unique trial_count_pos)

lemma create_interesting_contrasts_eq:
  "create_interesting_contrasts df cs css csr oth =
   Inr (map t_contrast (filter (\<lambda>(c1, c2). present df c1 \<and> present df c2) curated_pairs))"
proof -
  have "(\<lambda>condition1 condition2.
            condition1 \<in> set (unique (map conditions df)) \<and>
            condition2 \<in> set (unique (map conditions df)) \<and>
            0 < get_count (count_trials df (unique (map conditions df))) condition1 \<and>
            0 < get_count (count_trials df (unique (map conditions df))) condition2)
      = (\<lambda>c1 c2. present df c1 \<and> present df c2)"
    by (auto simp: fun_eq_iff present_def get_count_trials)
  then show ?thesis
    by (simp only: create_interesting_contrasts_def Let_def interesting_loop_curated)
qed

lemma create_interesting_contrasts_csv_eq:
  assumes "extract_cs_conditions srt (DataFrame cols rws) = Inr (df, cs, css, csr, oth)"
  shows "create_interesting_contrasts_csv srt (DataFrame cols rws) =
         Inr (map t_contrast (filter (\<lambda>(c1, c2). present df c1 \<and> present df c2) curated_pairs),
              cs, css, csr, oth)"
proof -
  have "(\<lambda>condition1 condition2.
            condition1 \<in> set (unique (map conditions df)) \<and>
            condition2 \<in> set (unique (map conditions df)))
      = (\<lambda>c1 c2. present df c1 \<and> present df c2)"
    by (auto simp: fun_eq_iff present_iff set_unique)
  then show ?thesis
    by (simp add: create_interesting_contrasts_csv_def Let_def assms interesting_loop_curated)
qed

lemma passthrough_present:
  assumes "x \<in> set rws" and "\<not> is_cs (trial_type x)" "\<not> is_css (trial_type x)"
    "\<not> is_csr (trial_type x)"
  shows "trial_type x \<in> set (map conditions (labelled srt rws))"
proof -
  from assms(2-4) have "derived_label srt rws x = trial_type x"
    by (rule derived_label_passthrough)
  with assms(1) show ?thesis
    unfolding labelled_fields set_map by (metis imageI)
qed

lemma curated_without_csr:
  assumes "present df ''CS-_others''" "present df ''CSS_others''" "present df ''FIXATION''"
    "\<not> present df ''CSR_others''"
  shows "map t_contrast (filter (\<lambda>(c1, c2). present df c1 \<and> present df c2) curated_pairs) =
     [(''CS-_others > FIXATION'', ''T'', [''CS-_others'', ''FIXATION''], [1, -1]),
      (''CSS_others > FIXATION'', ''T'', [''CSS_others'', ''FIXATION''], [1, -1]),
      (''CSS_others > CS-_others'', ''T'', [''CSS_others'', ''CS-_others''], [1, -1]),
      (''CS-_others > CSS_others'', ''T'', [''CS-_others'', ''CSS_others''], [1, -1])]"
  using assms by (simp add: curated_pairs_def t_contrast_def)

subsection \<open>The loops of the policy minimal and of create_standard_contrasts\<close>

text \<open>
  The two other loops over the list of conditions: the policy \<^verbatim>\<open>minimal\<close> of
  \<^verbatim>\<open>create_contrasts\<close>, and \<^verbatim>\<open>create_standard_contrasts\<close> of \<^verbatim>\<open>first_level_workflows.py\<close>, which
  is not the double loop of the policy \<^verbatim>\<open>standard\<close> of \<^verbatim>\<open>create_contrasts\<close>: it gives one
  contrast against FIXATION for each label.
\<close>

lemma minimal_contrasts_map:
  "minimal_contrasts conds = map (\<lambda>c. (c @ ''>baseline'', ''T'', [c], [1])) conds"
proof -
  have "minimal_contrasts conds =
        concat (map (\<lambda>c. [(c @ ''>baseline'', ''T'', [c], [1 :: int])]) conds)"
    unfolding minimal_contrasts_def fold_append_concat by simp
  also have "\<dots> = map (\<lambda>c. (c @ ''>baseline'', ''T'', [c], [1])) conds"
    by (induction conds) simp_all
  finally show ?thesis .
qed

lemma fold_if_append:
  "fold (\<lambda>x acc. if P x then acc @ [f x] else acc) xs acc0 = acc0 @ map f (filter P xs)"
  by (induction xs arbitrary: acc0) simp_all

lemma create_standard_contrasts_map:
  "create_standard_contrasts df cs css csr oth =
     map (\<lambda>c. (c @ '' > FIXATION'', ''T'', [c, ''FIXATION''], [1, -1]))
         (unique (map conditions df))"
proof -
  have "filter (\<lambda>c. 0 < get_count (count_trials df (unique (map conditions df))) c)
          (unique (map conditions df)) = unique (map conditions df)"
    by (rule filter_True) (simp add: get_count_trials trial_count_pos set_unique)
  then show ?thesis
    by (simp add: create_standard_contrasts_def Let_def fold_if_append)
qed

lemma length_create_standard_contrasts:
  "length (create_standard_contrasts df cs css csr oth) = card (set (map conditions df))"
  unfolding create_standard_contrasts_map length_map
  by (metis distinct_card distinct_unique set_unique)

subsection \<open>The three blocks, row by row\<close>

lemma set_loc_twice: "set_loc others ol (set_loc [fi] fl df) = map (mark fi others fl ol) df"
  by (auto simp: set_loc_def mark_def)

lemma update_family_step:
  assumes "sorts_by_onset srt"
  shows "update_family srt fam_trials fl ol df = Inr (map (family_step srt fam_trials fl ol) df)"
proof (cases "fam_trials = []")
  case True
  have "family_step srt [] fl ol = (\<lambda>r. r)" by (simp add: family_step_def fun_eq_iff)
  with True show ?thesis by (simp add: update_family_def)
next
  case False
  have "family_step srt fam_trials fl ol =
        mark (idx (hd (srt fam_trials)))
             (map idx (filter (\<lambda>r. idx r \<noteq> idx (hd (srt fam_trials))) fam_trials)) fl ol"
    using False by (simp add: family_step_def fun_eq_iff)
  then show ?thesis
    by (simp only: update_family_hd[OF assms False] set_loc_twice)
qed

lemma extract_rows_final:
  assumes "sorts_by_onset srt"
  shows "extract_rows srt rws = Inr (summarise (map (final_row srt rws) rws))"
  unfolding extract_rows_def Let_def
  by (simp add: update_family_step[OF assms] comp_def final_row_def[abs_def])

lemma family_step_fields [simp]:
  "idx (family_step srt fam fl ol r) = idx r"
  "trial_type (family_step srt fam fl ol r) = trial_type r"
  "onset (family_step srt fam fl ol r) = onset r"
  by (simp_all add: family_step_def mark_def)

lemma family_step_conditions:
  "conditions (family_step srt fam fl ol r) = conditions r \<or>
   conditions (family_step srt fam fl ol r) = fl \<or>
   conditions (family_step srt fam fl ol r) = ol"
  by (simp add: family_step_def mark_def)

lemma family_step_empty: "family_step srt [] fl ol r = r"
  by (simp add: family_step_def)

lemma family_step_member:
  assumes "idx r \<in> set (map idx fam)"
  shows "conditions (family_step srt fam fl ol r) = fl \<or>
         conditions (family_step srt fam fl ol r) = ol"
proof -
  from assms have ne: "fam \<noteq> []" by auto
  show ?thesis
  proof (cases "idx r = idx (hd (srt fam))")
    case True
    then show ?thesis using ne by (simp add: family_step_def mark_def)
  next
    case False
    with assms have "idx r \<in> set (map idx (filter (\<lambda>r. idx r \<noteq> idx (hd (srt fam))) fam))"
      by auto
    then show ?thesis using ne by (simp add: family_step_def mark_def)
  qed
qed

lemma final_row_fields [simp]:
  "idx (final_row srt rws x) = idx x"
  "trial_type (final_row srt rws x) = trial_type x"
  "onset (final_row srt rws x) = onset x"
  by (simp_all add: final_row_def init_row_def)

lemma extract_final:
  assumes "sorts_by_onset srt"
    and "extract_cs_conditions srt (DataFrame cols rws) = Inr (df, cs, css, csr, oth)"
  shows "df = map (final_row srt rws) rws"
    and "cs = summary (unique (map conditions df)) ''CS-_first'' ''CS-_others''"
    and "css = summary (unique (map conditions df)) ''CSS_first'' ''CSS_others''"
    and "csr = summary (unique (map conditions df)) ''CSR_first'' ''CSR_others''"
    and "oth = unique (map trial_type (filter (\<lambda>r. \<not> startswith (trial_type r) ''CS'') df))"
proof -
  from extract_Inr_valid[OF assms(2)]
  have "extract_cs_conditions srt (DataFrame cols rws) = extract_rows srt rws"
    by (simp add: extract_valid_input)
  with assms(2) extract_rows_final[OF assms(1)]
  have "summarise (map (final_row srt rws) rws) = (df, cs, css, csr, oth)" by simp
  then show "df = map (final_row srt rws) rws"
    and "cs = summary (unique (map conditions df)) ''CS-_first'' ''CS-_others''"
    and "css = summary (unique (map conditions df)) ''CSS_first'' ''CSS_others''"
    and "csr = summary (unique (map conditions df)) ''CSR_first'' ''CSR_others''"
    and "oth = unique (map trial_type (filter (\<lambda>r. \<not> startswith (trial_type r) ''CS'') df))"
    by (auto simp: summarise_def Let_def)
qed


lemma final_row_css_csr:
  assumes "x \<in> set rws" and "is_css (trial_type x) \<or> is_csr (trial_type x)"
  shows "conditions (final_row srt rws x) \<noteq> ''CS-_first'' \<and>
         conditions (final_row srt rws x) \<noteq> ''CS-_others''"
proof -
  let ?cs = "filter (\<lambda>r. is_cs (trial_type r)) (map init_row rws)"
  let ?css = "filter (\<lambda>r. is_css (trial_type r)) (map init_row rws)"
  let ?csr = "filter (\<lambda>r. is_csr (trial_type r)) (map init_row rws)"
  let ?r1 = "family_step srt ?cs ''CS-_first'' ''CS-_others'' (init_row x)"
  let ?r2 = "family_step srt ?css ''CSS_first'' ''CSS_others'' ?r1"
  let ?r3 = "family_step srt ?csr ''CSR_first'' ''CSR_others'' ?r2"
  have f: "final_row srt rws x = ?r3" by (simp add: final_row_def)
  from assms(2) show ?thesis
  proof
    assume c: "is_css (trial_type x)"
    with assms(1) have "init_row x \<in> set ?css" by (simp add: init_row_def)
    then have "idx (init_row x) \<in> set (map idx ?css)" unfolding set_map by (rule imageI)
    then have "idx ?r1 \<in> set (map idx ?css)" by (simp add: init_row_def)
    from family_step_member[OF this, of srt "''CSS_first''" "''CSS_others''"]
    have "conditions ?r2 = ''CSS_first'' \<or> conditions ?r2 = ''CSS_others''" .
    with family_step_conditions[of srt ?csr "''CSR_first''" "''CSR_others''" ?r2]
    show ?thesis unfolding f by auto
  next
    assume c: "is_csr (trial_type x)"
    with assms(1) have "init_row x \<in> set ?csr" by (simp add: init_row_def)
    then have "idx (init_row x) \<in> set (map idx ?csr)" unfolding set_map by (rule imageI)
    then have "idx ?r2 \<in> set (map idx ?csr)" by (simp add: init_row_def)
    from family_step_member[OF this, of srt "''CSR_first''" "''CSR_others''"]
    show ?thesis unfolding f by auto
  qed
qed






lemma final_labelled:
  assumes "sorts_by_onset srt" "distinct (map idx rws)"
  shows "map (final_row srt rws) rws = labelled srt rws"
proof -
  from extract_rows_final[OF assms(1), of rws] extract_rows_labelled[OF assms]
  have "summarise (map (final_row srt rws) rws) = summarise (labelled srt rws)" by simp
  then show ?thesis by (simp add: summarise_def Let_def)
qed

subsection \<open>Evaluation on the tables with repeated index labels\<close>

lemmas eval_defs = extract_cs_conditions_def extract_rows_def
      init_row_def is_cs_def is_css_def is_csr_def startswith_def
      update_family_def set_loc_def summarise_def summary_def unique_def



lemma dup_index_C_result:
  "extract_cs_conditions (sort_key onset) (DataFrame [''trial_type'', ''onset''] dup_index_C) =
     Inr ([\<lparr>idx = 0, trial_type = ''CS-'', onset = 1, conditions = ''CS-_first''\<rparr>,
           \<lparr>idx = 1, trial_type = ''CSS'', onset = 2, conditions = ''CSS_first''\<rparr>,
           \<lparr>idx = 1, trial_type = ''CS-'', onset = 3, conditions = ''CSS_first''\<rparr>,
           \<lparr>idx = 0, trial_type = ''US'', onset = 4, conditions = ''CS-_first''\<rparr>],
          \<lparr>first = Some ''CS-_first'', other = []\<rparr>,
          \<lparr>first = Some ''CSS_first'', other = []\<rparr>,
          \<lparr>first = None, other = []\<rparr>,
          [''US''])"
  by (simp add: eval_defs dup_index_C_def)

lemma dup_index_D_result:
  "extract_cs_conditions (sort_key onset) (DataFrame [''trial_type'', ''onset''] dup_index_D) =
     Inr ([\<lparr>idx = 0, trial_type = ''CS-'', onset = 5, conditions = ''CS-_first''\<rparr>,
           \<lparr>idx = 0, trial_type = ''CS-'', onset = 15, conditions = ''CS-_first''\<rparr>,
           \<lparr>idx = 1, trial_type = ''CSS'', onset = 10, conditions = ''CSS_first''\<rparr>,
           \<lparr>idx = 1, trial_type = ''CSS'', onset = 20, conditions = ''CSS_first''\<rparr>,
           \<lparr>idx = 2, trial_type = ''FIXATION'', onset = 0, conditions = ''FIXATION''\<rparr>],
          \<lparr>first = Some ''CS-_first'', other = []\<rparr>,
          \<lparr>first = Some ''CSS_first'', other = []\<rparr>,
          \<lparr>first = None, other = []\<rparr>,
          [''FIXATION''])"
  by (simp add: eval_defs dup_index_D_def)

subsection \<open>Counting the rows of a family\<close>





lemma final_nth:
  "i < length rws \<Longrightarrow> map (final_row srt rws) rws ! i = final_row srt rws (rws ! i)"
  by simp

lemma labelled_nth:
  "i < length rws \<Longrightarrow>
   labelled srt rws ! i = (init_row (rws ! i))\<lparr>conditions := derived_label srt rws (rws ! i)\<rparr>"
  by (simp add: labelled_def)

lemma either_label:
  assumes "(l = a) = (P \<and> Q)" and "(l = b) = (P \<and> \<not> Q)"
  shows "(l = a \<or> l = b) = P"
  using assms by blast

lemma dup_index_D_facts:
  "map trial_type dup_index_D = [''CS-'', ''CS-'', ''CSS'', ''CSS'', ''FIXATION'']"
  "is_cs ''CS-''" "is_css ''CSS''" "\<not> is_csr ''CS-''" "\<not> is_csr ''CSS''"
  "\<not> is_csr ''FIXATION''"
  by (simp_all add: dup_index_D_def is_cs_def is_css_def is_csr_def startswith_def)

lemma curated_none:
  assumes "\<not> present df ''CS-_others''" "\<not> present df ''CSS_others''"
    "\<not> present df ''CSR_others''"
  shows "map t_contrast (filter (\<lambda>(c1, c2). present df c1 \<and> present df c2) curated_pairs) = []"
  using assms by (simp add: curated_pairs_def)

section \<open>The claims\<close>

text \<open>
  C1 (scenario A). For the trial table with the (trial_type, onset) rows
  ("CS-",5), ("CSS",10), ("CSR",8), ("CS-",15), ("CSS",20), ("CSR",18), ("US",30),
  ("FIXATION",0), whatever sort by onset is used, \<^verbatim>\<open>extract_cs_conditions\<close> labels the CS-
  trial at onset 5 \<open>CS-_first\<close> and the one at onset 15 \<open>CS-_others\<close>, the CSS trial at 10
  \<open>CSS_first\<close> and the one at 20 \<open>CSS_others\<close>, the CSR trial at 8 \<open>CSR_first\<close> and the one
  at 18 \<open>CSR_others\<close>, and leaves US and FIXATION with their raw labels.
\<close>

theorem scenario_A_labels:
  assumes "sorts_by_onset srt"
  shows "extract_cs_conditions srt (DataFrame [''trial_type'', ''onset''] scenario_A) =
         Inr ([\<lparr>idx = 0, trial_type = ''CS-'', onset = 5, conditions = ''CS-_first''\<rparr>,
               \<lparr>idx = 1, trial_type = ''CSS'', onset = 10, conditions = ''CSS_first''\<rparr>,
               \<lparr>idx = 2, trial_type = ''CSR'', onset = 8, conditions = ''CSR_first''\<rparr>,
               \<lparr>idx = 3, trial_type = ''CS-'', onset = 15, conditions = ''CS-_others''\<rparr>,
               \<lparr>idx = 4, trial_type = ''CSS'', onset = 20, conditions = ''CSS_others''\<rparr>,
               \<lparr>idx = 5, trial_type = ''CSR'', onset = 18, conditions = ''CSR_others''\<rparr>,
               \<lparr>idx = 6, trial_type = ''US'', onset = 30, conditions = ''US''\<rparr>,
               \<lparr>idx = 7, trial_type = ''FIXATION'', onset = 0, conditions = ''FIXATION''\<rparr>],
              \<lparr>first = Some ''CS-_first'', other = [''CS-_others'']\<rparr>,
              \<lparr>first = Some ''CSS_first'', other = [''CSS_others'']\<rparr>,
              \<lparr>first = Some ''CSR_first'', other = [''CSR_others'']\<rparr>,
              [''US'', ''FIXATION''])"
  by (simp add: extract_cs_conditions_def extract_rows_def scenario_A_def
      init_row_def is_cs_def is_css_def is_csr_def startswith_def
      update_family_hd[OF assms] srt_hd_pair[OF assms] set_loc_def
      summarise_def summary_def unique_def)

theorem scenario_A_labels_witness:
  "sorts_by_onset (sort_key (onset :: real arow \<Rightarrow> real)) \<and>
   map conditions (fst (projr (extract_cs_conditions (sort_key onset)
       (DataFrame [''trial_type'', ''onset''] scenario_A)))) =
     [''CS-_first'', ''CSS_first'', ''CSR_first'', ''CS-_others'', ''CSS_others'', ''CSR_others'',
      ''US'', ''FIXATION'']"
  using scenario_A_labels[OF sort_key_sorts] by (simp add: sort_key_sorts)







text \<open>
  C4 as stated fails. The first half of the claim holds on every table; the second half,
  that the rows counted into the CS- family are exactly those whose label starts with
  \<open>CS-\<close> and with neither \<open>CSS\<close> nor \<open>CSR\<close>, fails when index labels repeat: in the table
  below the US trial shares its index label with the first CS- trial and is labelled
  \<open>CS-_first\<close>, and the second CS- trial ends with the label \<open>CSS_first\<close>. Besides, a label
  that starts with \<open>CSS\<close> does not start with \<open>CS-\<close>.
\<close>

theorem family_exclusivity_counterexample:
  "extract_cs_conditions (sort_key onset) (DataFrame [''trial_type'', ''onset''] dup_index_C) =
     Inr ([\<lparr>idx = 0, trial_type = ''CS-'', onset = 1, conditions = ''CS-_first''\<rparr>,
           \<lparr>idx = 1, trial_type = ''CSS'', onset = 2, conditions = ''CSS_first''\<rparr>,
           \<lparr>idx = 1, trial_type = ''CS-'', onset = 3, conditions = ''CSS_first''\<rparr>,
           \<lparr>idx = 0, trial_type = ''US'', onset = 4, conditions = ''CS-_first''\<rparr>],
          \<lparr>first = Some ''CS-_first'', other = []\<rparr>,
          \<lparr>first = Some ''CSS_first'', other = []\<rparr>,
          \<lparr>first = None, other = []\<rparr>,
          [''US'']) \<and>
   \<not> startswith ''US'' ''CS-'' \<and>
   startswith ''CSS'' ''CSS'' \<and> \<not> startswith ''CSS'' ''CS-''"
  by (simp add: dup_index_C_result) (simp add: startswith_def)

text \<open>
  C4, amended. For every valid trial table, no trial whose raw label starts with \<open>CSS\<close> or
  \<open>CSR\<close> is labelled \<open>CS-_first\<close> or \<open>CS-_others\<close>; and for every valid trial table whose
  index labels are unique, the trials labelled \<open>CS-_first\<close> or \<open>CS-_others\<close> are exactly the
  trials whose label starts with \<open>CS-\<close> and starts with neither \<open>CSS\<close> nor \<open>CSR\<close>. The rows
  of the returned table are those of the input, position by position.
\<close>

theorem family_exclusivity:
  assumes "sorts_by_onset srt"
    and "extract_cs_conditions srt (DataFrame cols rws) = Inr (df, cs, css, csr, oth)"
  shows "length df = length rws \<and>
         (\<forall>i<length rws. trial_type (df ! i) = trial_type (rws ! i)) \<and>
         (\<forall>i<length rws.
            startswith (trial_type (rws ! i)) ''CSS'' \<or> startswith (trial_type (rws ! i)) ''CSR'' \<longrightarrow>
            conditions (df ! i) \<noteq> ''CS-_first'' \<and> conditions (df ! i) \<noteq> ''CS-_others'') \<and>
         (distinct (map idx rws) \<longrightarrow>
            (\<forall>i<length rws.
               (conditions (df ! i) = ''CS-_first'' \<or> conditions (df ! i) = ''CS-_others'') \<longleftrightarrow>
               (startswith (trial_type (rws ! i)) ''CS-'' \<and>
                \<not> startswith (trial_type (rws ! i)) ''CSS'' \<and>
                \<not> startswith (trial_type (rws ! i)) ''CSR'')))"
proof -
  from extract_final(1)[OF assms] have df: "df = map (final_row srt rws) rws" .
  have 1: "length df = length rws" by (simp add: df)
  have 2: "trial_type (df ! i) = trial_type (rws ! i)" if "i < length rws" for i
    using that by (simp add: df)
  have 3: "conditions (df ! i) \<noteq> ''CS-_first'' \<and> conditions (df ! i) \<noteq> ''CS-_others''"
    if i: "i < length rws"
      and "startswith (trial_type (rws ! i)) ''CSS'' \<or> startswith (trial_type (rws ! i)) ''CSR''"
    for i
  proof -
    from i have "rws ! i \<in> set rws" by simp
    moreover from that(2) have "is_css (trial_type (rws ! i)) \<or> is_csr (trial_type (rws ! i))"
      by (simp add: is_css_def is_csr_def)
    ultimately show ?thesis
      unfolding df final_nth[OF i] by (rule final_row_css_csr)
  qed
  have 4: "(conditions (df ! i) = ''CS-_first'' \<or> conditions (df ! i) = ''CS-_others'') \<longleftrightarrow>
               (startswith (trial_type (rws ! i)) ''CS-'' \<and>
                \<not> startswith (trial_type (rws ! i)) ''CSS'' \<and>
                \<not> startswith (trial_type (rws ! i)) ''CSR'')"
    if d: "distinct (map idx rws)" and i: "i < length rws" for i
  proof -
    have "conditions (df ! i) = derived_label srt rws (rws ! i)"
      unfolding df final_labelled[OF assms(1) d] labelled_nth[OF i] by simp
    moreover have "(derived_label srt rws (rws ! i) = ''CS-_first'' \<or>
           derived_label srt rws (rws ! i) = ''CS-_others'') = is_cs (trial_type (rws ! i))"
      by (rule either_label[OF derived_label_cases(1,2)])
    ultimately show ?thesis
      by (simp only: is_cs_def)
  qed
  from 1 2 3 4 show ?thesis by blast
qed

theorem family_exclusivity_witness:
  "sorts_by_onset (sort_key (onset :: real arow \<Rightarrow> real)) \<and> distinct (map idx scenario_A) \<and>
   (1 :: nat) < length scenario_A \<and> 3 < length scenario_A \<and>
   startswith (trial_type (scenario_A ! 1)) ''CSS'' \<and>
   conditions (scenario_A_labelled ! 1) \<noteq> ''CS-_first'' \<and>
   conditions (scenario_A_labelled ! 1) \<noteq> ''CS-_others'' \<and>
   startswith (trial_type (scenario_A ! 3)) ''CS-'' \<and>
   \<not> startswith (trial_type (scenario_A ! 3)) ''CSS'' \<and>
   \<not> startswith (trial_type (scenario_A ! 3)) ''CSR'' \<and>
   conditions (scenario_A_labelled ! 3) = ''CS-_others''"
  using family_exclusivity[OF sort_key_sorts scenario_A_stable]
  by (simp add: sort_key_sorts scenario_A_distinct scenario_A_labelled_def scenario_A_def
      startswith_def)




text \<open>
  C6 as stated fails, in two ways. The claim is that with no CSR trial four of the nine
  curated contrasts are dropped and the remaining five returned. Five of the nine reference
  \<open>CSR_others\<close> (the ninth, \<open>CS-_others > CSR_others\<close>, too): on the first table below, with
  two CS- trials, two CSS trials, FIXATION and no CSR trial, both functions return four
  contrasts. And when the two trials of a family share their index label no \<open>_others\<close>
  label exists: on the second table, with the same trials, no contrast is returned.
\<close>

theorem curated_policy_counterexample:
  "create_interesting_contrasts_csv (sort_key onset)
       (DataFrame [''trial_type'', ''onset''] scenario_D) =
     Inr ([(''CS-_others > FIXATION'', ''T'', [''CS-_others'', ''FIXATION''], [1, -1]),
           (''CSS_others > FIXATION'', ''T'', [''CSS_others'', ''FIXATION''], [1, -1]),
           (''CSS_others > CS-_others'', ''T'', [''CSS_others'', ''CS-_others''], [1, -1]),
           (''CS-_others > CSS_others'', ''T'', [''CS-_others'', ''CSS_others''], [1, -1])],
          \<lparr>first = Some ''CS-_first'', other = [''CS-_others'']\<rparr>,
          \<lparr>first = Some ''CSS_first'', other = [''CSS_others'']\<rparr>,
          \<lparr>first = None, other = []\<rparr>,
          [''FIXATION'']) \<and>
   length (projr (create_interesting_contrasts scenario_D_labelled
          \<lparr>first = Some ''CS-_first'', other = [''CS-_others'']\<rparr>
          \<lparr>first = Some ''CSS_first'', other = [''CSS_others'']\<rparr>
          \<lparr>first = None, other = []\<rparr>
          [''FIXATION''])) \<noteq> 5 \<and>
   map trial_type dup_index_D = [''CS-'', ''CS-'', ''CSS'', ''CSS'', ''FIXATION''] \<and>
   is_cs ''CS-'' \<and> is_css ''CSS'' \<and> \<not> is_csr ''CS-'' \<and> \<not> is_csr ''CSS'' \<and>
   \<not> is_csr ''FIXATION'' \<and>
   create_interesting_contrasts_csv (sort_key onset)
       (DataFrame [''trial_type'', ''onset''] dup_index_D) =
     Inr ([],
          \<lparr>first = Some ''CS-_first'', other = []\<rparr>,
          \<lparr>first = Some ''CSS_first'', other = []\<rparr>,
          \<lparr>first = None, other = []\<rparr>,
          [''FIXATION''])"
proof -
  have p: "present scenario_D_labelled ''CS-_others''" "present scenario_D_labelled ''CSS_others''"
    "present scenario_D_labelled ''FIXATION''" "\<not> present scenario_D_labelled ''CSR_others''"
    by (simp_all add: present_iff scenario_D_labelled_def)
  have 1: "create_interesting_contrasts_csv (sort_key onset)
       (DataFrame [''trial_type'', ''onset''] scenario_D) =
     Inr ([(''CS-_others > FIXATION'', ''T'', [''CS-_others'', ''FIXATION''], [1, -1]),
           (''CSS_others > FIXATION'', ''T'', [''CSS_others'', ''FIXATION''], [1, -1]),
           (''CSS_others > CS-_others'', ''T'', [''CSS_others'', ''CS-_others''], [1, -1]),
           (''CS-_others > CSS_others'', ''T'', [''CS-_others'', ''CSS_others''], [1, -1])],
          \<lparr>first = Some ''CS-_first'', other = [''CS-_others'']\<rparr>,
          \<lparr>first = Some ''CSS_first'', other = [''CSS_others'']\<rparr>,
          \<lparr>first = None, other = []\<rparr>,
          [''FIXATION''])"
    unfolding create_interesting_contrasts_csv_eq[OF scenario_D_stable]
      curated_without_csr[OF p] ..
  have 2: "length (projr (create_interesting_contrasts scenario_D_labelled
          \<lparr>first = Some ''CS-_first'', other = [''CS-_others'']\<rparr>
          \<lparr>first = Some ''CSS_first'', other = [''CSS_others'']\<rparr>
          \<lparr>first = None, other = []\<rparr>
          [''FIXATION''])) \<noteq> 5"
    unfolding create_interesting_contrasts_eq curated_without_csr[OF p] by simp
  have "create_interesting_contrasts_csv (sort_key onset)
       (DataFrame [''trial_type'', ''onset''] dup_index_D) =
     Inr (map t_contrast (filter (\<lambda>(c1, c2).
             present [\<lparr>idx = 0, trial_type = ''CS-'', onset = 5 :: real, conditions = ''CS-_first''\<rparr>,
           \<lparr>idx = 0, trial_type = ''CS-'', onset = 15, conditions = ''CS-_first''\<rparr>,
           \<lparr>idx = 1, trial_type = ''CSS'', onset = 10, conditions = ''CSS_first''\<rparr>,
           \<lparr>idx = 1, trial_type = ''CSS'', onset = 20, conditions = ''CSS_first''\<rparr>,
           \<lparr>idx = 2, trial_type = ''FIXATION'', onset = 0, conditions = ''FIXATION''\<rparr>] c1 \<and>
             present [\<lparr>idx = 0, trial_type = ''CS-'', onset = 5 :: real, conditions = ''CS-_first''\<rparr>,
           \<lparr>idx = 0, trial_type = ''CS-'', onset = 15, conditions = ''CS-_first''\<rparr>,
           \<lparr>idx = 1, trial_type = ''CSS'', onset = 10, conditions = ''CSS_first''\<rparr>,
           \<lparr>idx = 1, trial_type = ''CSS'', onset = 20, conditions = ''CSS_first''\<rparr>,
           \<lparr>idx = 2, trial_type = ''FIXATION'', onset = 0, conditions = ''FIXATION''\<rparr>] c2)
           curated_pairs),
          \<lparr>first = Some ''CS-_first'', other = []\<rparr>,
          \<lparr>first = Some ''CSS_first'', other = []\<rparr>,
          \<lparr>first = None, other = []\<rparr>,
          [''FIXATION''])"
    by (rule create_interesting_contrasts_csv_eq[OF dup_index_D_result])
  then have 3: "create_interesting_contrasts_csv (sort_key onset)
       (DataFrame [''trial_type'', ''onset''] dup_index_D) =
     Inr ([],
          \<lparr>first = Some ''CS-_first'', other = []\<rparr>,
          \<lparr>first = Some ''CSS_first'', other = []\<rparr>,
          \<lparr>first = None, other = []\<rparr>,
          [''FIXATION''])"
    by (subst (asm) curated_none) (simp_all add: present_iff)
  from 1 2 3 dup_index_D_facts show ?thesis by blast
qed

text \<open>
  C6, amended. Under the curated policy each of the nine fixed contrasts is in the result,
  in the order of the list and as a T-contrast with weights \<open>[1, -1]\<close>, exactly when both
  labels it references are present with a trial count above zero; this holds for the function
  of \<^verbatim>\<open>first_level_workflows.py\<close> and for the one of \<^verbatim>\<open>generate_contrast_csv.py\<close>. For a table
  with unique index labels, without CSR trial, with at least two CS- trials, at least two CSS
  trials and a FIXATION trial, the five contrasts that reference \<open>CSR_others\<close> are dropped
  and exactly the four others are returned.
\<close>

theorem curated_policy:
  assumes "sorts_by_onset srt"
    and "extract_cs_conditions srt (DataFrame cols rws) = Inr (df, cs, css, csr, oth)"
  shows "create_interesting_contrasts df cs css csr oth =
           Inr (map t_contrast
                  (filter (\<lambda>(c1, c2). present df c1 \<and> present df c2) curated_pairs)) \<and>
         create_interesting_contrasts_csv srt (DataFrame cols rws) =
           Inr (map t_contrast
                  (filter (\<lambda>(c1, c2). present df c1 \<and> present df c2) curated_pairs),
                cs, css, csr, oth) \<and>
         (distinct (map idx rws) \<and>
          filter (\<lambda>r. is_csr (trial_type r)) rws = [] \<and>
          2 \<le> length (filter (\<lambda>r. is_cs (trial_type r)) rws) \<and>
          2 \<le> length (filter (\<lambda>r. is_css (trial_type r)) rws) \<and>
          ''FIXATION'' \<in> set (map trial_type rws) \<longrightarrow>
          create_interesting_contrasts df cs css csr oth =
            Inr [(''CS-_others > FIXATION'', ''T'', [''CS-_others'', ''FIXATION''], [1, -1]),
                 (''CSS_others > FIXATION'', ''T'', [''CSS_others'', ''FIXATION''], [1, -1]),
                 (''CSS_others > CS-_others'', ''T'', [''CSS_others'', ''CS-_others''], [1, -1]),
                 (''CS-_others > CSS_others'', ''T'', [''CS-_others'', ''CSS_others''], [1, -1])])"
proof -
  have "create_interesting_contrasts df cs css csr oth =
            Inr [(''CS-_others > FIXATION'', ''T'', [''CS-_others'', ''FIXATION''], [1, -1]),
                 (''CSS_others > FIXATION'', ''T'', [''CSS_others'', ''FIXATION''], [1, -1]),
                 (''CSS_others > CS-_others'', ''T'', [''CSS_others'', ''CS-_others''], [1, -1]),
                 (''CS-_others > CSS_others'', ''T'', [''CS-_others'', ''CSS_others''], [1, -1])]"
    if d: "distinct (map idx rws)"
      and h: "filter (\<lambda>r. is_csr (trial_type r)) rws = []"
          "2 \<le> length (filter (\<lambda>r. is_cs (trial_type r)) rws)"
          "2 \<le> length (filter (\<lambda>r. is_css (trial_type r)) rws)"
          "''FIXATION'' \<in> set (map trial_type rws)"
  proof -
    from extract_labelled(1)[OF assms(1) d assms(2)] have df: "df = labelled srt rws" .
    have cs: "present df ''CS-_others''"
      unfolding present_iff df
      using others_label_present[OF assms(1) d, of is_cs "''CS-_first''" "''CS-_others''"] h(2)
      by simp
    have css: "present df ''CSS_others''"
      unfolding present_iff df
      using others_label_present[OF assms(1) d, of is_css "''CSS_first''" "''CSS_others''"] h(3)
      by simp
    have csr: "\<not> present df ''CSR_others''"
      unfolding present_iff df
      using others_label_present[OF assms(1) d, of is_csr "''CSR_first''" "''CSR_others''"] h(1)
      by simp
    from h(4) obtain x where x: "x \<in> set rws" "trial_type x = ''FIXATION''" by auto
    have "\<not> is_cs ''FIXATION''" "\<not> is_css ''FIXATION''" "\<not> is_csr ''FIXATION''"
      by (simp_all add: is_cs_def is_css_def is_csr_def startswith_def)
    with passthrough_present[OF x(1), of srt] x(2) have fx: "present df ''FIXATION''"
      unfolding present_iff df by simp
    show ?thesis
      by (simp only: create_interesting_contrasts_eq curated_without_csr[OF cs css fx csr])
  qed
  then show ?thesis
    using create_interesting_contrasts_eq[of df cs css csr oth]
      create_interesting_contrasts_csv_eq[OF assms(2)]
    by blast
qed

theorem curated_policy_witness:
  "sorts_by_onset (sort_key (onset :: real arow \<Rightarrow> real)) \<and> distinct (map idx scenario_D) \<and>
   filter (\<lambda>r. is_csr (trial_type r)) scenario_D = [] \<and>
   2 \<le> length (filter (\<lambda>r. is_cs (trial_type r)) scenario_D) \<and>
   2 \<le> length (filter (\<lambda>r. is_css (trial_type r)) scenario_D) \<and>
   ''FIXATION'' \<in> set (map trial_type scenario_D) \<and>
   create_interesting_contrasts scenario_D_labelled
          \<lparr>first = Some ''CS-_first'', other = [''CS-_others'']\<rparr>
          \<lparr>first = Some ''CSS_first'', other = [''CSS_others'']\<rparr>
          \<lparr>first = None, other = []\<rparr>
          [''FIXATION''] =
     Inr [(''CS-_others > FIXATION'', ''T'', [''CS-_others'', ''FIXATION''], [1, -1]),
          (''CSS_others > FIXATION'', ''T'', [''CSS_others'', ''FIXATION''], [1, -1]),
          (''CSS_others > CS-_others'', ''T'', [''CSS_others'', ''CS-_others''], [1, -1]),
          (''CS-_others > CSS_others'', ''T'', [''CS-_others'', ''CSS_others''], [1, -1])]"
proof -
  have h: "filter (\<lambda>r. is_csr (trial_type r)) scenario_D = []"
    "2 \<le> length (filter (\<lambda>r. is_cs (trial_type r)) scenario_D)"
    "2 \<le> length (filter (\<lambda>r. is_css (trial_type r)) scenario_D)"
    "''FIXATION'' \<in> set (map trial_type scenario_D)"
    by (simp_all add: scenario_D_def is_cs_def is_css_def is_csr_def startswith_def)
  with curated_policy[OF sort_key_sorts scenario_D_stable] scenario_D_distinct
  have "create_interesting_contrasts scenario_D_labelled
          \<lparr>first = Some ''CS-_first'', other = [''CS-_others'']\<rparr>
          \<lparr>first = Some ''CSS_first'', other = [''CSS_others'']\<rparr>
          \<lparr>first = None, other = []\<rparr>
          [''FIXATION''] =
     Inr [(''CS-_others > FIXATION'', ''T'', [''CS-_others'', ''FIXATION''], [1, -1]),
          (''CSS_others > FIXATION'', ''T'', [''CSS_others'', ''FIXATION''], [1, -1]),
          (''CSS_others > CS-_others'', ''T'', [''CSS_others'', ''CS-_others''], [1, -1]),
          (''CS-_others > CSS_others'', ''T'', [''CS-_others'', ''CSS_others''], [1, -1])]"
    by blast
  with h sort_key_sorts scenario_D_distinct show ?thesis
    by blast
qed






text \<open>
  C9 as stated fails, in two ways. The code selects \<^verbatim>\<open>other_conditions\<close> as the labels that
  do not start with \<open>CS\<close>: in the first table below the label \<open>CS+\<close> is of no family and
  keeps its raw label, but is not in \<^verbatim>\<open>other_conditions\<close>. And with a repeated index label a
  trial of no family need not keep its raw label: in the second table the US trial is
  labelled \<open>CS-_first\<close>.
\<close>

theorem other_conditions_counterexample:
  "extract_cs_conditions (sort_key onset) (DataFrame [''trial_type'', ''onset''] scenario_plus) =
     Inr ([\<lparr>idx = 0, trial_type = ''CS+'', onset = 1, conditions = ''CS+''\<rparr>,
           \<lparr>idx = 1, trial_type = ''US'', onset = 2, conditions = ''US''\<rparr>,
           \<lparr>idx = 2, trial_type = ''CS-'', onset = 3, conditions = ''CS-_first''\<rparr>],
          \<lparr>first = Some ''CS-_first'', other = []\<rparr>,
          \<lparr>first = None, other = []\<rparr>,
          \<lparr>first = None, other = []\<rparr>,
          [''US'']) \<and>
   \<not> is_cs ''CS+'' \<and> \<not> is_css ''CS+'' \<and> \<not> is_csr ''CS+'' \<and> ''CS+'' \<notin> set [''US''] \<and>
   extract_cs_conditions (sort_key onset) (DataFrame [''trial_type'', ''onset''] dup_index_C) =
     Inr ([\<lparr>idx = 0, trial_type = ''CS-'', onset = 1, conditions = ''CS-_first''\<rparr>,
           \<lparr>idx = 1, trial_type = ''CSS'', onset = 2, conditions = ''CSS_first''\<rparr>,
           \<lparr>idx = 1, trial_type = ''CS-'', onset = 3, conditions = ''CSS_first''\<rparr>,
           \<lparr>idx = 0, trial_type = ''US'', onset = 4, conditions = ''CS-_first''\<rparr>],
          \<lparr>first = Some ''CS-_first'', other = []\<rparr>,
          \<lparr>first = Some ''CSS_first'', other = []\<rparr>,
          \<lparr>first = None, other = []\<rparr>,
          [''US'']) \<and>
   \<not> is_cs ''US'' \<and> \<not> is_css ''US'' \<and> \<not> is_csr ''US'' \<and> ''CS-_first'' \<noteq> ''US''"
proof -
  have "extract_cs_conditions (sort_key onset)
          (DataFrame [''trial_type'', ''onset''] scenario_plus) =
     Inr ([\<lparr>idx = 0, trial_type = ''CS+'', onset = 1, conditions = ''CS+''\<rparr>,
           \<lparr>idx = 1, trial_type = ''US'', onset = 2, conditions = ''US''\<rparr>,
           \<lparr>idx = 2, trial_type = ''CS-'', onset = 3, conditions = ''CS-_first''\<rparr>],
          \<lparr>first = Some ''CS-_first'', other = []\<rparr>,
          \<lparr>first = None, other = []\<rparr>,
          \<lparr>first = None, other = []\<rparr>,
          [''US''])"
    by (simp add: eval_defs scenario_plus_def)
  moreover have "\<not> is_cs ''CS+'' \<and> \<not> is_css ''CS+'' \<and> \<not> is_csr ''CS+'' \<and> ''CS+'' \<notin> set [''US''] \<and>
     \<not> is_cs ''US'' \<and> \<not> is_css ''US'' \<and> \<not> is_csr ''US'' \<and> ''CS-_first'' \<noteq> ''US''"
    by (simp add: is_cs_def is_css_def is_csr_def startswith_def)
  ultimately show ?thesis
    by (simp only: dup_index_C_result) simp
qed

text \<open>
  C9, amended. For every valid trial table, \<^verbatim>\<open>other_conditions\<close> is the list, without
  duplicates and in order of first appearance, of the raw labels that do not start with
  \<open>CS\<close>, each of which is of no family; and for every valid trial table whose index labels
  are unique, every trial whose raw label is of no family keeps it as its derived label.
\<close>

theorem other_conditions:
  assumes "sorts_by_onset srt"
    and "extract_cs_conditions srt (DataFrame cols rws) = Inr (df, cs, css, csr, oth)"
  shows "oth = unique (filter (\<lambda>t. \<not> startswith t ''CS'') (map trial_type rws)) \<and>
         distinct oth \<and>
         set oth = {t \<in> set (map trial_type rws). \<not> startswith t ''CS''} \<and>
         (\<forall>t\<in>set oth. \<not> is_cs t \<and> \<not> is_css t \<and> \<not> is_csr t) \<and>
         length df = length rws \<and>
         (distinct (map idx rws) \<longrightarrow>
            (\<forall>i<length rws.
               \<not> is_cs (trial_type (rws ! i)) \<and> \<not> is_css (trial_type (rws ! i)) \<and>
               \<not> is_csr (trial_type (rws ! i)) \<longrightarrow>
               trial_type (df ! i) = trial_type (rws ! i) \<and>
               conditions (df ! i) = trial_type (rws ! i)))"
proof -
  note e = extract_final[OF assms]
  have "map trial_type (filter (\<lambda>r. \<not> startswith (trial_type r) ''CS'') df) =
        filter (\<lambda>t. \<not> startswith t ''CS'') (map trial_type df)"
    by (simp add: filter_map comp_def)
  also have "map trial_type df = map trial_type rws"
    by (simp add: e(1))
  finally have 1: "oth = unique (filter (\<lambda>t. \<not> startswith t ''CS'') (map trial_type rws))"
    by (simp add: e(5))
  have 2: "set oth = {t \<in> set (map trial_type rws). \<not> startswith t ''CS''}"
    unfolding 1 set_unique by auto
  have 3: "\<forall>t\<in>set oth. \<not> is_cs t \<and> \<not> is_css t \<and> \<not> is_csr t"
    unfolding 2 using not_cs_prefix_no_family by blast
  have 4: "trial_type (df ! i) = trial_type (rws ! i) \<and> conditions (df ! i) = trial_type (rws ! i)"
    if d: "distinct (map idx rws)" and i: "i < length rws"
      and n: "\<not> is_cs (trial_type (rws ! i)) \<and> \<not> is_css (trial_type (rws ! i)) \<and>
              \<not> is_csr (trial_type (rws ! i))"
    for i
  proof -
    have "df ! i = (init_row (rws ! i))\<lparr>conditions := derived_label srt rws (rws ! i)\<rparr>"
      unfolding e(1) final_labelled[OF assms(1) d] by (rule labelled_nth[OF i])
    with n show ?thesis by (simp add: derived_label_passthrough init_row_def)
  qed
  have 5: "distinct oth" unfolding 1 by (rule distinct_unique)
  have 6: "length df = length rws" by (simp add: e(1))
  from 1 2 3 4 5 6 show ?thesis by blast
qed

theorem other_conditions_witness:
  "sorts_by_onset (sort_key (onset :: real arow \<Rightarrow> real)) \<and> distinct (map idx scenario_A) \<and>
   [''US'', ''FIXATION''] = unique (filter (\<lambda>t. \<not> startswith t ''CS'') (map trial_type scenario_A)) \<and>
   \<not> is_cs ''US'' \<and> \<not> is_css ''US'' \<and> \<not> is_csr ''US'' \<and>
   (6 :: nat) < length scenario_A \<and> trial_type (scenario_A ! 6) = ''US'' \<and>
   conditions (scenario_A_labelled ! 6) = ''US''"
  using other_conditions[OF sort_key_sorts scenario_A_stable]
  by (simp add: sort_key_sorts scenario_A_distinct scenario_A_labelled_def scenario_A_def)

text \<open>
  C10 (unrecognised policy). For a valid trial table, \<^verbatim>\<open>create_contrasts\<close> called with a
  \<^verbatim>\<open>contrast_type\<close> other than \<^verbatim>\<open>minimal\<close> and \<^verbatim>\<open>standard\<close> raises nothing and returns the empty
  list of contrasts, with the list of conditions and the table of \<^verbatim>\<open>extract_cs_conditions\<close>.
\<close>

theorem unknown_policy:
  assumes "sorts_by_onset srt" and "rws \<noteq> []"
    and "''trial_type'' \<in> set cols" and "''onset'' \<in> set cols"
    and "contrast_type \<noteq> ''minimal''" and "contrast_type \<noteq> ''standard''"
  shows "\<exists>df cs css csr oth.
           extract_cs_conditions srt (DataFrame cols rws) = Inr (df, cs, css, csr, oth) \<and>
           create_contrasts srt (DataFrame cols rws) contrast_type =
             Inr ([], unique (map conditions df), df)"
proof -
  from create_contrasts_valid[OF assms(1-4), of contrast_type] obtain df cs css csr oth where
    "extract_cs_conditions srt (DataFrame cols rws) = Inr (df, cs, css, csr, oth)"
    "create_contrasts srt (DataFrame cols rws) contrast_type =
       Inr (if contrast_type = ''minimal'' then minimal_contrasts (unique (map conditions df))
            else if contrast_type = ''standard'' then standard_contrasts (unique (map conditions df))
            else [],
            unique (map conditions df), df)"
    by blast
  with assms(5,6) show ?thesis by auto
qed

theorem unknown_policy_witness:
  "sorts_by_onset (sort_key (onset :: real arow \<Rightarrow> real)) \<and> scenario_D \<noteq> [] \<and>
   ''trial_type'' \<in> set [''trial_type'', ''onset''] \<and> ''onset'' \<in> set [''trial_type'', ''onset''] \<and>
   ''interesting'' \<noteq> ''minimal'' \<and> ''interesting'' \<noteq> ''standard'' \<and>
   create_contrasts (sort_key onset) (DataFrame [''trial_type'', ''onset''] scenario_D)
       ''interesting'' =
     Inr ([], [''CS-_first'', ''CSS_first'', ''CS-_others'', ''CSS_others'', ''FIXATION''],
          scenario_D_labelled)"
proof -
  have u: "unique (map conditions scenario_D_labelled) =
        [''CS-_first'', ''CSS_first'', ''CS-_others'', ''CSS_others'', ''FIXATION'']"
    by (simp add: scenario_D_labelled_def unique_def)
  from unknown_policy[OF sort_key_sorts scenario_D_nonempty,
      of "[''trial_type'', ''onset'']" "''interesting''"]
  show ?thesis
    by (auto simp: sort_key_sorts scenario_D_nonempty scenario_D_stable u)
qed

end
